theory Spec2Isabelle
  imports Main "HOL-Library.Char_ord" "HOL-Library.List_Lexorder"
begin

section \<open>Data model\<close>

text \<open>
  The portal keeps three tables in a hosted relational store: \<open>observation_details\<close>,
  \<open>observation_categories\<close> and \<open>action_plans\<close>. Identifiers, dates and all classification
  fields are JavaScript strings. Several source types share column names (\<open>status\<close>,
  \<open>supporting_image\<close>, \<open>id\<close>, ...), so the columns of each table carry a short prefix:
  \<open>obs_\<close> for \<open>observation_details\<close>, \<open>ap_\<close> for \<open>action_plans\<close>, \<open>link_\<close> for
  \<open>observation_categories\<close>, \<open>sr_\<close> for the \<open>SafetyReport\<close> rows of the reports table and
  \<open>plan_\<close>/\<open>vp_\<close> for the two component-local \<open>ActionPlan\<close> interfaces. The state variables
  of the form components keep their source names.
\<close>

type_synonym ident = string

text \<open>The columns written by both the insert of the create flow and the update of the edit flow.\<close>

record scalar_fields =
  obs_project_id :: ident
  obs_company_id :: ident
  obs_submitter_name :: string
  obs_date :: string
  obs_time :: string
  obs_department :: string
  obs_location :: string
  obs_description :: string
  obs_report_group :: string
  obs_consequences :: string
  obs_likelihood :: string
  obs_status :: string
  obs_subject :: string
  obs_supporting_image :: "string option"

text \<open>The payload of the insert into \<open>observation_details\<close>.\<close>

record observation_fields = scalar_fields +
  obs_corrective_action :: bool
  obs_created_by :: ident

text \<open>A stored row: the payload plus the columns the store fills in.\<close>

record observation_row = observation_fields +
  obs_id :: ident
  obs_created_at :: string

record category_link =
  link_observation_id :: ident
  link_category_id :: ident

text \<open>
  The payload of an insert into \<open>action_plans\<close>. The create flow leaves
  \<open>supporting_image\<close> out of the payload (\<open>None\<close>).
\<close>

record action_plan_fields =
  ap_observation_id :: ident
  ap_action :: string
  ap_due_date :: string
  ap_responsible_person :: string
  ap_follow_up_contact :: string
  ap_status :: string
  ap_supporting_image :: "string option"
  ap_created_by :: ident

record action_plan_row = action_plan_fields +
  ap_id :: ident

section \<open>The external store\<close>

text \<open>
  The store, the object storage and the auth provider are external collaborators. The model
  keeps their tables, and an oracle \<open>replies\<close> that says how the \<open>n\<close>-th call made by the
  client is answered: normally, with an error (carrying its message), or successfully but
  without returning the written row. A call that is answered with an error leaves every table
  as it was. Every call, failed or not, is appended to \<open>calls\<close>, so that "was attempted" and
  "was issued before" are statements about that trace.
\<close>

datatype reply = Succeeds | Fails string | SucceedsWithoutData

datatype column =
  K_id | K_subject | K_submitter_name | K_date | K_description
  | K_consequences | K_status | K_created_at

datatype count_mode = Exact | Planned | Estimated

text \<open>
  A read query on \<open>observation_details\<close> as the query builder accumulates it: the ordering,
  the optional filters, the optional inclusive row range, and the count option of \<open>select\<close>
  (its second argument; absent when \<open>select\<close> is called with the column list only).
\<close>

record query =
  q_order :: "column \<times> bool"
  q_gte_date :: "string option"
  q_lte_date :: "string option"
  q_eq_status :: "string option"
  q_eq_consequences :: "string option"
  q_range :: "(int \<times> int) option"
  q_count :: "count_mode option"

datatype request =
    AuthGetUser
  | StorageUpload string string
  | InsertObservation observation_fields
  | InsertCategories "category_link list"
  | InsertActionPlans "action_plan_fields list"
  | UpdateObservation ident scalar_fields
  | CloseActionPlans ident
  | DeleteCategories ident
  | DeleteActionPlans ident
  | DeleteObservation ident
  | SelectReports query

record backend =
  observation_details :: "observation_row list"
  observation_categories :: "category_link list"
  action_plans :: "action_plan_row list"
  projects :: "(ident \<times> string) list"
  companies :: "(ident \<times> string) list"
  storage_objects :: "(string \<times> string) list"
  auth_user :: "ident option"
  replies :: "nat \<Rightarrow> reply"
  generated_id :: "nat \<Rightarrow> nat \<Rightarrow> ident"
  generated_timestamp :: "nat \<Rightarrow> string"
  calls :: "(request \<times> reply) list"

definition next_reply :: "backend \<Rightarrow> reply" where
  "next_reply b = replies b (length (calls b))"

definition logged :: "request \<Rightarrow> backend \<Rightarrow> backend" where
  "logged r b = b\<lparr>calls := calls b @ [(r, next_reply b)]\<rparr>"

text \<open>\<open>supabase.auth.getUser()\<close>: the signed-in user's id, or no user.\<close>

definition auth_get_user :: "backend \<Rightarrow> ident option \<times> backend" where
  "auth_get_user b =
     (case next_reply b of
        Fails _ \<Rightarrow> (None, logged AuthGetUser b)
      | _ \<Rightarrow> (auth_user b, logged AuthGetUser b))"

text \<open>\<open>supabase.storage.from(bucket).upload(key, file)\<close>: the stored path, or an error.\<close>

definition storage_upload :: "string \<Rightarrow> string \<Rightarrow> backend \<Rightarrow> (string + string) \<times> backend" where
  "storage_upload bucket key b =
     (case next_reply b of
        Fails msg \<Rightarrow> (Inl msg, logged (StorageUpload bucket key) b)
      | _ \<Rightarrow> (Inr key,
           (logged (StorageUpload bucket key) b)
             \<lparr>storage_objects := storage_objects b @ [(bucket, key)]\<rparr>))"

definition new_observation_row :: "backend \<Rightarrow> observation_fields \<Rightarrow> observation_row" where
  "new_observation_row b p =
     \<lparr>obs_project_id = obs_project_id p, obs_company_id = obs_company_id p,
      obs_submitter_name = obs_submitter_name p, obs_date = obs_date p, obs_time = obs_time p,
      obs_department = obs_department p, obs_location = obs_location p,
      obs_description = obs_description p, obs_report_group = obs_report_group p,
      obs_consequences = obs_consequences p, obs_likelihood = obs_likelihood p,
      obs_status = obs_status p, obs_subject = obs_subject p,
      obs_supporting_image = obs_supporting_image p,
      obs_corrective_action = obs_corrective_action p, obs_created_by = obs_created_by p,
      obs_id = generated_id b (length (calls b)) 0,
      obs_created_at = generated_timestamp b (length (calls b))\<rparr>"

text \<open>
  \<open>from('observation_details').insert(payload).select().single()\<close>: an error, or the
  written row, or nothing.
\<close>

definition insert_observation ::
  "observation_fields \<Rightarrow> backend \<Rightarrow> (string + observation_row option) \<times> backend" where
  "insert_observation p b =
     (case next_reply b of
        Fails msg \<Rightarrow> (Inl msg, logged (InsertObservation p) b)
      | Succeeds \<Rightarrow> (Inr (Some (new_observation_row b p)),
           (logged (InsertObservation p) b)
             \<lparr>observation_details := observation_details b @ [new_observation_row b p]\<rparr>)
      | SucceedsWithoutData \<Rightarrow> (Inr None,
           (logged (InsertObservation p) b)
             \<lparr>observation_details := observation_details b @ [new_observation_row b p]\<rparr>))"

text \<open>\<open>from('observation_categories').insert(rows)\<close>: one request for all the rows.\<close>

definition insert_categories :: "category_link list \<Rightarrow> backend \<Rightarrow> string option \<times> backend" where
  "insert_categories rows b =
     (case next_reply b of
        Fails msg \<Rightarrow> (Some msg, logged (InsertCategories rows) b)
      | _ \<Rightarrow> (None,
           (logged (InsertCategories rows) b)
             \<lparr>observation_categories := observation_categories b @ rows\<rparr>))"

definition new_action_plan_row :: "backend \<Rightarrow> nat \<times> action_plan_fields \<Rightarrow> action_plan_row" where
  "new_action_plan_row b ip =
     \<lparr>ap_observation_id = ap_observation_id (snd ip), ap_action = ap_action (snd ip),
      ap_due_date = ap_due_date (snd ip),
      ap_responsible_person = ap_responsible_person (snd ip),
      ap_follow_up_contact = ap_follow_up_contact (snd ip), ap_status = ap_status (snd ip),
      ap_supporting_image = ap_supporting_image (snd ip),
      ap_created_by = ap_created_by (snd ip),
      ap_id = generated_id b (length (calls b)) (fst ip)\<rparr>"

text \<open>\<open>from('action_plans').insert(rows)\<close>: one request for all the rows.\<close>

definition insert_action_plans ::
  "action_plan_fields list \<Rightarrow> backend \<Rightarrow> string option \<times> backend" where
  "insert_action_plans rows b =
     (case next_reply b of
        Fails msg \<Rightarrow> (Some msg, logged (InsertActionPlans rows) b)
      | _ \<Rightarrow> (None,
           (logged (InsertActionPlans rows) b)
             \<lparr>action_plans := action_plans b @ map (new_action_plan_row b) (enumerate 0 rows)\<rparr>))"

text \<open>\<open>from('observation_details').update(fields).eq('id', i)\<close>.\<close>

definition apply_update :: "scalar_fields \<Rightarrow> observation_row \<Rightarrow> observation_row" where
  "apply_update u r =
     r\<lparr>obs_project_id := obs_project_id u, obs_company_id := obs_company_id u,
       obs_submitter_name := obs_submitter_name u, obs_date := obs_date u,
       obs_time := obs_time u, obs_department := obs_department u,
       obs_location := obs_location u, obs_description := obs_description u,
       obs_report_group := obs_report_group u, obs_consequences := obs_consequences u,
       obs_likelihood := obs_likelihood u, obs_status := obs_status u,
       obs_subject := obs_subject u, obs_supporting_image := obs_supporting_image u\<rparr>"

definition update_observation :: "ident \<Rightarrow> scalar_fields \<Rightarrow> backend \<Rightarrow> string option \<times> backend" where
  "update_observation i u b =
     (case next_reply b of
        Fails msg \<Rightarrow> (Some msg, logged (UpdateObservation i u) b)
      | _ \<Rightarrow> (None,
           (logged (UpdateObservation i u) b)
             \<lparr>observation_details :=
                map (\<lambda>r. if obs_id r = i then apply_update u r else r) (observation_details b)\<rparr>))"

text \<open>\<open>from('action_plans').update({ status: 'closed' }).eq('observation_id', i)\<close>.\<close>

definition close_action_plans :: "ident \<Rightarrow> backend \<Rightarrow> string option \<times> backend" where
  "close_action_plans i b =
     (case next_reply b of
        Fails msg \<Rightarrow> (Some msg, logged (CloseActionPlans i) b)
      | _ \<Rightarrow> (None,
           (logged (CloseActionPlans i) b)
             \<lparr>action_plans :=
                map (\<lambda>p. if ap_observation_id p = i then p\<lparr>ap_status := ''closed''\<rparr> else p)
                  (action_plans b)\<rparr>))"

text \<open>\<open>from('observation_categories').delete().eq('observation_id', i)\<close>.\<close>

definition delete_categories :: "ident \<Rightarrow> backend \<Rightarrow> string option \<times> backend" where
  "delete_categories i b =
     (case next_reply b of
        Fails msg \<Rightarrow> (Some msg, logged (DeleteCategories i) b)
      | _ \<Rightarrow> (None,
           (logged (DeleteCategories i) b)
             \<lparr>observation_categories :=
                filter (\<lambda>l. link_observation_id l \<noteq> i) (observation_categories b)\<rparr>))"

text \<open>\<open>from('action_plans').delete().eq('observation_id', i)\<close>.\<close>

definition delete_action_plans :: "ident \<Rightarrow> backend \<Rightarrow> string option \<times> backend" where
  "delete_action_plans i b =
     (case next_reply b of
        Fails msg \<Rightarrow> (Some msg, logged (DeleteActionPlans i) b)
      | _ \<Rightarrow> (None,
           (logged (DeleteActionPlans i) b)
             \<lparr>action_plans := filter (\<lambda>p. ap_observation_id p \<noteq> i) (action_plans b)\<rparr>))"

text \<open>\<open>from('observation_details').delete().eq('id', i)\<close>.\<close>

definition delete_observation :: "ident \<Rightarrow> backend \<Rightarrow> string option \<times> backend" where
  "delete_observation i b =
     (case next_reply b of
        Fails msg \<Rightarrow> (Some msg, logged (DeleteObservation i) b)
      | _ \<Rightarrow> (None,
           (logged (DeleteObservation i) b)
             \<lparr>observation_details := filter (\<lambda>r. obs_id r \<noteq> i) (observation_details b)\<rparr>))"

text \<open>The read \<open>from('action_plans').select('*').eq('observation_id', i)\<close>, on the tables.\<close>

definition action_plans_of :: "ident \<Rightarrow> backend \<Rightarrow> action_plan_row list" where
  "action_plans_of i b = filter (\<lambda>p. ap_observation_id p = i) (action_plans b)"

text \<open>The read \<open>from('observation_categories').select('category_id').eq('observation_id', i)\<close>.\<close>

definition category_ids_of :: "ident \<Rightarrow> backend \<Rightarrow> ident list" where
  "category_ids_of i b =
     map link_category_id (filter (\<lambda>l. link_observation_id l = i) (observation_categories b))"

text \<open>
  Vocabulary for the trace: the observation ids that the rows of a dependent write (category
  links, action plans) reference, and whether a request writes action plans.
\<close>

fun referenced :: "request \<Rightarrow> ident list option" where
  "referenced (InsertCategories rows) = Some (map link_observation_id rows)"
| "referenced (InsertActionPlans rows) = Some (map ap_observation_id rows)"
| "referenced _ = None"

fun writes_action_plans :: "request \<Rightarrow> bool" where
  "writes_action_plans (InsertActionPlans rows) = True"
| "writes_action_plans _ = False"

definition dependents_only :: "ident \<Rightarrow> (request \<times> reply) list \<Rightarrow> bool" where
  "dependents_only i cs \<longleftrightarrow>
     (\<forall>c \<in> set cs. \<exists>refs. referenced (fst c) = Some refs \<and> (\<forall>r \<in> set refs. r = i))"

text \<open>
  The read issued by the reports table. The store filters, orders (by the code points of the
  column's text), counts and cuts the inclusive row range. As the client library documents
  for \<open>select(columns, { count })\<close>, a total count is part of the answer only when the
  query asked for one through that option; otherwise the answer's \<open>count\<close> is \<open>null\<close>.
\<close>

record 'rel report_columns =
  sr_id :: ident
  sr_subject :: string
  sr_submitter_name :: string
  sr_date :: string
  sr_description :: string
  sr_consequences :: string
  sr_status :: string
  sr_created_at :: string
  sr_projects :: 'rel
  sr_companies :: 'rel
  sr_action_plans :: "action_plan_row list"

definition matches :: "query \<Rightarrow> observation_row \<Rightarrow> bool" where
  "matches q r \<longleftrightarrow>
     (case q_gte_date q of None \<Rightarrow> True | Some d \<Rightarrow> d \<le> obs_date r) \<and>
     (case q_lte_date q of None \<Rightarrow> True | Some d \<Rightarrow> obs_date r \<le> d) \<and>
     (case q_eq_status q of None \<Rightarrow> True | Some v \<Rightarrow> obs_status r = v) \<and>
     (case q_eq_consequences q of None \<Rightarrow> True | Some v \<Rightarrow> obs_consequences r = v)"

fun column_value :: "column \<Rightarrow> observation_row \<Rightarrow> string" where
  "column_value K_id r = obs_id r"
| "column_value K_subject r = obs_subject r"
| "column_value K_submitter_name r = obs_submitter_name r"
| "column_value K_date r = obs_date r"
| "column_value K_description r = obs_description r"
| "column_value K_consequences r = obs_consequences r"
| "column_value K_status r = obs_status r"
| "column_value K_created_at r = obs_created_at r"

definition ordered :: "column \<times> bool \<Rightarrow> observation_row list \<Rightarrow> observation_row list" where
  "ordered ord rows =
     (if snd ord then sort_key (column_value (fst ord)) rows
      else rev (sort_key (column_value (fst ord)) rows))"

definition result_set :: "query \<Rightarrow> backend \<Rightarrow> observation_row list" where
  "result_set q b = ordered (q_order q) (filter (matches q) (observation_details b))"

definition row_range :: "(int \<times> int) option \<Rightarrow> 'a list \<Rightarrow> 'a list" where
  "row_range rng rows =
     (case rng of
        None \<Rightarrow> rows
      | Some (from, to) \<Rightarrow> take (nat (to - from + 1)) (drop (nat from) rows))"

definition joined :: "backend \<Rightarrow> observation_row \<Rightarrow> string list report_columns" where
  "joined b r =
     \<lparr>sr_id = obs_id r, sr_subject = obs_subject r, sr_submitter_name = obs_submitter_name r,
      sr_date = obs_date r, sr_description = obs_description r,
      sr_consequences = obs_consequences r, sr_status = obs_status r,
      sr_created_at = obs_created_at r,
      sr_projects = map snd (filter (\<lambda>p. fst p = obs_project_id r) (projects b)),
      sr_companies = map snd (filter (\<lambda>c. fst c = obs_company_id r) (companies b)),
      sr_action_plans = action_plans_of (obs_id r) b\<rparr>"

definition select_reports ::
  "query \<Rightarrow> backend \<Rightarrow>
     (string + string list report_columns list option \<times> nat option) \<times> backend" where
  "select_reports q b =
     (case next_reply b of
        Fails msg \<Rightarrow> (Inl msg, logged (SelectReports q) b)
      | SucceedsWithoutData \<Rightarrow> (Inr (None, None), logged (SelectReports q) b)
      | Succeeds \<Rightarrow>
          (Inr (Some (map (joined b) (row_range (q_range q) (result_set q b))),
                (case q_count q of
                   None \<Rightarrow> None
                 | Some _ \<Rightarrow> Some (length (result_set q b)))),
           logged (SelectReports q) b))"

section \<open>The create form (component \<open>SafetyReport\<close>)\<close>

text \<open>The component-local \<open>ActionPlan\<close> interface of the create form.\<close>

record ActionPlan =
  plan_action :: string
  plan_dueDate :: string
  plan_responsiblePerson :: string
  plan_followUpContact :: string
  plan_status :: string

text \<open>
  The state variables that the create form and the edit form both declare; \<open>'ap\<close> is the
  component's own action-plan type. A \<open>File\<close> is represented by its name.
\<close>

record 'ap form_state =
  project :: string
  company :: string
  submitterName :: string
  date :: string
  time :: string
  department :: string
  location :: string
  description :: string
  reportGroup :: string
  consequences :: string
  likelihood :: string
  status :: string
  subject :: string
  imageFile :: "string option"
  selectedCategories :: "ident list"
  actionPlans :: "'ap list"
  actionPlanRequired :: string

record create_state = "ActionPlan form_state" +
  validationErrors :: "(string \<times> string) list"
  loading :: bool
  error :: "string option"

text \<open>
  The object \<open>errors\<close> that \<open>validateForm\<close> fills, as the list of its keys and messages in
  the order of assignment. For a string \<open>x\<close>, \<open>!x\<close> holds exactly when \<open>x\<close> is empty.
\<close>

definition errors :: "create_state \<Rightarrow> (string \<times> string) list" where
  "errors f =
     (if project f = [] then [(''project'', ''Project is required'')] else []) @
     (if company f = [] then [(''company'', ''Company is required'')] else []) @
     (if submitterName f = [] then [(''submitterName'', ''Submitter name is required'')] else []) @
     (if date f = [] then [(''date'', ''Date is required'')] else []) @
     (if time f = [] then [(''time'', ''Time is required'')] else []) @
     (if location f = [] then [(''location'', ''Location is required'')] else []) @
     (if description f = [] then [(''description'', ''Description is required'')] else []) @
     (if reportGroup f = [] then [(''reportGroup'', ''Report group is required'')] else []) @
     (if consequences f = [] then [(''consequences'', ''Consequences is required'')] else []) @
     (if likelihood f = [] then [(''likelihood'', ''Likelihood is required'')] else []) @
     (if subject f = [] then [(''subject'', ''Subject is required'')] else []) @
     (if length (selectedCategories f) = 0
      then [(''categories'', ''At least one safety category is required'')] else []) @
     (if actionPlanRequired f = ''yes'' \<and> length (actionPlans f) = 0
      then [(''actionPlans'', ''At least one action plan is required'')] else [])"

text \<open>\<open>validateForm\<close> stores the errors in the state and returns whether there are none.\<close>

definition validateForm :: "create_state \<Rightarrow> bool \<times> create_state" where
  "validateForm f = (length (errors f) = 0, f\<lparr>validationErrors := errors f\<rparr>)"

text \<open>The decimal text of \<open>Date.now()\<close> inside the template string of the upload key.\<close>

fun decimal :: "nat \<Rightarrow> string" where
  "decimal n =
     (if n < 10 then [char_of (48 + n)]
      else decimal (n div 10) @ [char_of (48 + n mod 10)])"

declare decimal.simps [simp del]

definition observation_payload :: "create_state \<Rightarrow> string \<Rightarrow> ident \<Rightarrow> observation_fields" where
  "observation_payload f imagePath user =
     \<lparr>obs_project_id = project f, obs_company_id = company f,
      obs_submitter_name = submitterName f, obs_date = date f, obs_time = time f,
      obs_department = department f, obs_location = location f,
      obs_description = description f, obs_report_group = reportGroup f,
      obs_consequences = consequences f, obs_likelihood = likelihood f,
      obs_status = status f, obs_subject = subject f,
      obs_supporting_image = (if imagePath = [] then None else Some imagePath),
      obs_corrective_action = (length (actionPlans f) > 0), obs_created_by = user\<rparr>"

definition category_rows :: "ident \<Rightarrow> ident list \<Rightarrow> category_link list" where
  "category_rows i cs =
     map (\<lambda>categoryId. \<lparr>link_observation_id = i, link_category_id = categoryId\<rparr>) cs"

definition action_plan_rows :: "ident \<Rightarrow> ident \<Rightarrow> ActionPlan list \<Rightarrow> action_plan_fields list" where
  "action_plan_rows i user plans =
     map (\<lambda>plan. \<lparr>ap_observation_id = i, ap_action = plan_action plan,
                  ap_due_date = plan_dueDate plan,
                  ap_responsible_person = plan_responsiblePerson plan,
                  ap_follow_up_contact = plan_followUpContact plan,
                  ap_status = plan_status plan, ap_supporting_image = None,
                  ap_created_by = user\<rparr>) plans"

text \<open>
  The steps of the \<open>try\<close> block of the create form's \<open>handleSubmit\<close>, one for each of
  its comments. "Upload image if exists": the stored path, or the empty path without a file;
  \<open>now\<close> is the reading of \<open>Date.now()\<close> for the upload key.
\<close>

definition upload_image :: "create_state \<Rightarrow> nat \<Rightarrow> backend \<Rightarrow> (string + string) \<times> backend" where
  "upload_image f now b =
     (case imageFile f of
        None \<Rightarrow> (Inr [], b)
      | Some name \<Rightarrow> storage_upload ''safety-images'' (decimal now @ ''-'' @ name) b)"

text \<open>"Save selected categories": one insert of all the links; \<open>Some\<close> is the message thrown.\<close>

definition save_categories :: "create_state \<Rightarrow> ident \<Rightarrow> backend \<Rightarrow> string option \<times> backend" where
  "save_categories f savedId b =
     (if length (selectedCategories f) > 0
      then (case insert_categories (category_rows savedId (selectedCategories f)) b of
              (Some categoriesError, b') \<Rightarrow> (Some ''Failed to save categories'', b')
            | (None, b') \<Rightarrow> (None, b'))
      else (None, b))"

text \<open>"Save action plans if any": one insert of all the staged plans.\<close>

definition save_action_plans ::
  "create_state \<Rightarrow> ident \<Rightarrow> ident \<Rightarrow> backend \<Rightarrow> string option \<times> backend" where
  "save_action_plans f savedId user b =
     (if length (actionPlans f) > 0
      then (case insert_action_plans (action_plan_rows savedId user (actionPlans f)) b of
              (Some actionPlansError, b') \<Rightarrow> (Some ''Failed to save action plans'', b')
            | (None, b') \<Rightarrow> (None, b'))
      else (None, b))"

text \<open>
  The two writes that reference the saved report, in the order of the source: the category
  links, then the action plans. \<open>Inl\<close> is the message of the exception thrown, \<open>Inr\<close> the
  id of the saved report.
\<close>

definition save_dependents ::
  "create_state \<Rightarrow> ident \<Rightarrow> ident \<Rightarrow> backend \<Rightarrow> (string + ident) \<times> backend" where
  "save_dependents f savedId user b =
     (case save_categories f savedId b of
        (Some thrown, b4) \<Rightarrow> (Inl thrown, b4)
      | (None, b4) \<Rightarrow>
          (case save_action_plans f savedId user b4 of
             (Some thrown, b5) \<Rightarrow> (Inl thrown, b5)
           | (None, b5) \<Rightarrow> (Inr savedId, b5)))"

text \<open>The \<open>try\<close> block of \<open>handleSubmit\<close>.\<close>

definition submit_try :: "create_state \<Rightarrow> nat \<Rightarrow> backend \<Rightarrow> (string + ident) \<times> backend" where
  "submit_try f now b =
     (case auth_get_user b of
        (None, b1) \<Rightarrow> (Inl ''User not authenticated'', b1)
      | (Some user, b1) \<Rightarrow>
          (case upload_image f now b1 of
             (Inl imageError, b2) \<Rightarrow> (Inl imageError, b2)
           | (Inr imagePath, b2) \<Rightarrow>
               (case insert_observation (observation_payload f imagePath user) b2 of
                  (Inl observationError, b3) \<Rightarrow> (Inl ''Failed to save observation'', b3)
                | (Inr None, b3) \<Rightarrow> (Inl ''No report data returned after save'', b3)
                | (Inr (Some savedReport), b3) \<Rightarrow>
                    save_dependents f (obs_id savedReport) user b3)))"

datatype submit_outcome =
    Rejected string
  | SubmitFailed string
  | Navigated string

definition handleSubmit ::
  "create_state \<Rightarrow> nat \<Rightarrow> backend \<Rightarrow> submit_outcome \<times> create_state \<times> backend" where
  "handleSubmit f now b =
     (if \<not> fst (validateForm f)
      then (Rejected ''Please fill in all required fields'', snd (validateForm f), b)
      else
        (case submit_try (snd (validateForm f)) now b of
           (Inl errorMessage, b') \<Rightarrow>
             (SubmitFailed errorMessage,
              (snd (validateForm f))\<lparr>loading := False, error := Some errorMessage\<rparr>, b')
         | (Inr savedId, b') \<Rightarrow>
             (Navigated (''/reports/'' @ savedId),
              (snd (validateForm f))\<lparr>loading := False, error := None\<rparr>, b')))"

section \<open>The edit form (component \<open>ReportView\<close>)\<close>

text \<open>The component-local \<open>ActionPlan\<close> interface of the edit form; its \<open>id\<close> is optional.\<close>

record ViewActionPlan =
  vp_id :: "ident option"
  vp_action :: string
  vp_due_date :: string
  vp_responsible_person :: string
  vp_follow_up_contact :: string
  vp_status :: string
  vp_supporting_image :: string

text \<open>
  \<open>id_param\<close> is the route parameter \<open>id\<close> (possibly undefined) and \<open>report_image\<close> the value
  of \<open>report?.supporting_image\<close> (\<open>None\<close> when there is no report or no image).
\<close>

record view_state = "ViewActionPlan form_state" +
  id_param :: "ident option"
  report_image :: "string option"
  saving :: bool

datatype add_outcome = LimitReached string | Added

text \<open>\<open>handleAddActionPlan\<close>; \<open>now\<close> is the reading of \<open>Date.now()\<close> for the temporary id.\<close>

definition handleAddActionPlan :: "view_state \<Rightarrow> nat \<Rightarrow> add_outcome \<times> view_state" where
  "handleAddActionPlan s now =
     (if length (actionPlans s) \<ge> 10
      then (LimitReached ''Maximum of 10 action plans allowed per report'', s)
      else (Added,
            s\<lparr>actionPlans := actionPlans s @
                 [\<lparr>vp_id = Some (''temp-'' @ decimal now), vp_action = [], vp_due_date = [],
                   vp_responsible_person = [], vp_follow_up_contact = [],
                   vp_status = ''open'', vp_supporting_image = []\<rparr>]\<rparr>))"

definition update_payload :: "view_state \<Rightarrow> string \<Rightarrow> scalar_fields" where
  "update_payload s imagePath =
     \<lparr>obs_project_id = project s, obs_company_id = company s,
      obs_submitter_name = submitterName s, obs_date = date s, obs_time = time s,
      obs_department = department s, obs_location = location s,
      obs_description = description s, obs_report_group = reportGroup s,
      obs_consequences = consequences s, obs_likelihood = likelihood s,
      obs_status = status s, obs_subject = subject s,
      obs_supporting_image = Some imagePath\<rparr>"

text \<open>
  How the \<open>try\<close> block of the edit form's \<open>handleSubmit\<close> ends: an early \<open>return\<close>
  after an error toast, a thrown exception, or normally.
\<close>

datatype flow = Returned string | Thrown string | Completed

text \<open>The presence and value checks that open the \<open>try\<close> block, after the user lookup.\<close>

definition check_fields :: "view_state \<Rightarrow> string option" where
  "check_fields s =
     (if project s = [] \<or> company s = [] \<or> submitterName s = [] \<or> date s = [] \<or>
         time s = [] \<or> location s = [] \<or> description s = [] \<or> reportGroup s = [] \<or>
         consequences s = [] \<or> likelihood s = [] \<or> subject s = []
      then Some ''Please fill in all required fields''
      else if subject s \<notin> set [''SOSV : Safety Observation Site Visit'', ''SOP'', ''RES'']
      then Some ''Invalid subject value''
      else if reportGroup s \<notin> set [''finding'', ''positive'']
      then Some ''Invalid report group value''
      else if consequences s \<notin> set [''minor'', ''moderate'', ''major'', ''severe'']
      then Some ''Invalid consequences value''
      else if likelihood s \<notin> set [''unlikely'', ''possible'', ''likely'', ''very-likely'']
      then Some ''Invalid likelihood value''
      else None)"

text \<open>
  The part of the \<open>try\<close> block that replaces the category links of report \<open>i\<close>
  (under the comment "Update categories").
\<close>

definition update_categories :: "ident \<Rightarrow> view_state \<Rightarrow> backend \<Rightarrow> flow \<times> backend" where
  "update_categories i s b =
     (if length (selectedCategories s) > 0
      then (case delete_categories i b of
              (Some deleteError, b1) \<Rightarrow> (Thrown deleteError, b1)
            | (None, b1) \<Rightarrow>
                (case insert_categories (category_rows i (selectedCategories s)) b1 of
                   (Some categoriesError, b2) \<Rightarrow> (Thrown categoriesError, b2)
                 | (None, b2) \<Rightarrow> (Completed, b2)))
      else (Completed, b))"

text \<open>
  The \<open>try\<close> block of the edit form's \<open>handleSubmit\<close> for the report \<open>i\<close>, with the
  component state as the block leaves it (\<open>setActionPlans\<close> runs right after the cascade).
  \<open>sanitizeFilename\<close> (Unicode normalisation and a character filter) is a parameter.
\<close>

definition update_try ::
  "(string \<Rightarrow> string) \<Rightarrow> ident \<Rightarrow> view_state \<Rightarrow> nat \<Rightarrow> backend \<Rightarrow>
     flow \<times> view_state \<times> backend" where
  "update_try sanitizeFilename i s now b =
     (case auth_get_user b of
        (None, b1) \<Rightarrow> (Thrown ''User not authenticated'', s, b1)
      | (Some user, b1) \<Rightarrow>
          (case check_fields s of
             Some msg \<Rightarrow> (Returned msg, s, b1)
           | None \<Rightarrow>
               (case (case imageFile s of
                        None \<Rightarrow> (Inr (case report_image s of None \<Rightarrow> [] | Some p \<Rightarrow> p), b1)
                      | Some name \<Rightarrow>
                          storage_upload ''safety-images''
                            (decimal now @ ''-'' @ sanitizeFilename name) b1) of
                  (Inl imageError, b2) \<Rightarrow> (Thrown imageError, s, b2)
                | (Inr imagePath, b2) \<Rightarrow>
                    (case update_observation i (update_payload s imagePath) b2 of
                       (Some updateError, b3) \<Rightarrow> (Thrown updateError, s, b3)
                     | (None, b3) \<Rightarrow>
                         (if status s = ''closed''
                          then (case close_action_plans i b3 of
                                  (Some actionPlansError, b4) \<Rightarrow> (Thrown actionPlansError, s, b4)
                                | (None, b4) \<Rightarrow>
                                    (fst (update_categories i s b4),
                                     s\<lparr>actionPlans :=
                                         map (\<lambda>plan. plan\<lparr>vp_status := ''closed''\<rparr>)
                                           (actionPlans s)\<rparr>,
                                     snd (update_categories i s b4)))
                          else (fst (update_categories i s b3), s,
                                snd (update_categories i s b3)))))))"

datatype update_outcome =
    NoReportId
  | Invalid string
  | UpdateFailed string
  | Updated string

text \<open>
  The edit form's \<open>handleSubmit\<close>: nothing without a (non-empty) route id; a failed check shows its
  message; any exception shows \<open>Failed to update report\<close>; success navigates to \<open>/\<close>.
  \<open>finally\<close> clears \<open>saving\<close>.
\<close>

definition handleSubmitEdit ::
  "(string \<Rightarrow> string) \<Rightarrow> view_state \<Rightarrow> nat \<Rightarrow> backend \<Rightarrow>
     update_outcome \<times> view_state \<times> backend" where
  "handleSubmitEdit sanitizeFilename s now b =
     (case id_param s of
        None \<Rightarrow> (NoReportId, s, b)
      | Some i \<Rightarrow>
          (if i = [] then (NoReportId, s, b)
           else
             (case update_try sanitizeFilename i s now b of
                (Returned msg, s', b') \<Rightarrow> (Invalid msg, s'\<lparr>saving := False\<rparr>, b')
              | (Thrown err, s', b') \<Rightarrow>
                  (UpdateFailed ''Failed to update report'', s'\<lparr>saving := False\<rparr>, b')
              | (Completed, s', b') \<Rightarrow> (Updated ''/'', s'\<lparr>saving := False\<rparr>, b'))))"

section \<open>The reports table (component \<open>SafetyReportsTable\<close>)\<close>

type_synonym SafetyReport = "string report_columns"

datatype direction = Asc | Desc

record table_state =
  reports :: "SafetyReport list"
  table_loading :: bool
  table_error :: string
  currentPage :: int
  totalPages :: int
  reportToDelete :: "SafetyReport option"
  filters_dateRange_start :: string
  filters_dateRange_end :: string
  filters_status :: string
  filters_severity :: string
  sortConfig_key :: column
  sortConfig_direction :: direction

definition reportsPerPage :: int where
  "reportsPerPage = 10"

text \<open>A filter is added to the query only when its string is non-empty.\<close>

definition truthy :: "string \<Rightarrow> string option" where
  "truthy x = (if x = [] then None else Some x)"

text \<open>
  The query that \<open>loadReports\<close> builds. \<open>select\<close> is called with the column list only, so
  the query carries no count option.
\<close>

definition reports_query :: "table_state \<Rightarrow> query" where
  "reports_query s =
     \<lparr>q_order = (sortConfig_key s, sortConfig_direction s = Asc),
      q_gte_date = truthy (filters_dateRange_start s),
      q_lte_date = truthy (filters_dateRange_end s),
      q_eq_status = truthy (filters_status s),
      q_eq_consequences = truthy (filters_severity s),
      q_range = Some ((currentPage s - 1) * reportsPerPage,
                      (currentPage s - 1) * reportsPerPage + reportsPerPage - 1),
      q_count = None\<rparr>"

text \<open>The transformation of a returned row: the first joined name, or the empty name.\<close>

definition transformed :: "string list report_columns \<Rightarrow> SafetyReport" where
  "transformed report =
     \<lparr>sr_id = sr_id report, sr_subject = sr_subject report,
      sr_submitter_name = sr_submitter_name report, sr_date = sr_date report,
      sr_description = sr_description report, sr_consequences = sr_consequences report,
      sr_status = sr_status report, sr_created_at = sr_created_at report,
      sr_projects = (case sr_projects report of [] \<Rightarrow> [] | name # _ \<Rightarrow> name),
      sr_companies = (case sr_companies report of [] \<Rightarrow> [] | name # _ \<Rightarrow> name),
      sr_action_plans = sr_action_plans report\<rparr>"

text \<open>\<open>Math.ceil((count || 0) / reportsPerPage)\<close> for a count that is a natural number or null.\<close>

definition page_count :: "nat option \<Rightarrow> int" where
  "page_count count =
     (case count of
        None \<Rightarrow> 0
      | Some c \<Rightarrow> (int c + reportsPerPage - 1) div reportsPerPage)"

definition loadReports :: "table_state \<Rightarrow> backend \<Rightarrow> table_state \<times> backend" where
  "loadReports s b =
     (case select_reports (reports_query s) b of
        (Inl fetchError, b') \<Rightarrow>
          (s\<lparr>table_error := ''Failed to load reports'', table_loading := False\<rparr>, b')
      | (Inr (data, count), b') \<Rightarrow>
          (s\<lparr>reports := map transformed (case data of None \<Rightarrow> [] | Some rows \<Rightarrow> rows),
             totalPages := page_count count, table_loading := False\<rparr>, b'))"

datatype delete_outcome = NothingToDelete | DeleteFailed string | Deleted string

text \<open>
  \<open>confirmDelete\<close>: the action plans of the report first, then the report; the first error
  ends it. After both deletes the prompt is closed and the table is loaded again.
\<close>

definition confirmDelete :: "table_state \<Rightarrow> backend \<Rightarrow> delete_outcome \<times> table_state \<times> backend" where
  "confirmDelete s b =
     (case reportToDelete s of
        None \<Rightarrow> (NothingToDelete, s, b)
      | Some report \<Rightarrow>
          (case delete_action_plans (sr_id report) b of
             (Some actionPlansError, b1) \<Rightarrow> (DeleteFailed ''Failed to delete report'', s, b1)
           | (None, b1) \<Rightarrow>
               (case delete_observation (sr_id report) b1 of
                  (Some deleteError, b2) \<Rightarrow> (DeleteFailed ''Failed to delete report'', s, b2)
                | (None, b2) \<Rightarrow>
                    (Deleted ''Report deleted successfully'',
                     loadReports (s\<lparr>reportToDelete := None\<rparr>) b2))))"

text \<open>
  \<open>exportToCSV\<close> maps the rows held in \<open>reports\<close> to objects with labelled columns, given
  here as lists of label and value. \<open>format(parseISO(x), 'PPP')\<close> is a parameter
  \<open>formatPPP\<close>; it is \<open>None\<close> where the date is invalid and \<open>format\<close> throws, which ends
  the export.
\<close>

definition export_row ::
  "(string \<Rightarrow> string option) \<Rightarrow> SafetyReport \<Rightarrow> (string \<times> string) list option" where
  "export_row formatPPP report =
     (case formatPPP (sr_date report) of
        None \<Rightarrow> None
      | Some d \<Rightarrow>
          (case formatPPP (sr_created_at report) of
             None \<Rightarrow> None
           | Some c \<Rightarrow>
               Some [(''Report ID'', sr_id report),
                     (''Subject'', sr_subject report),
                     (''Submitter'', sr_submitter_name report),
                     (''Date'', d),
                     (''Project'', sr_projects report),
                     (''Company'', sr_companies report),
                     (''Description'', sr_description report),
                     (''Severity'', sr_consequences report),
                     (''Status'', sr_status report),
                     (''Created At'', c)]))"

fun export_rows ::
  "(string \<Rightarrow> string option) \<Rightarrow> SafetyReport list \<Rightarrow> (string \<times> string) list list option" where
  "export_rows formatPPP [] = Some []"
| "export_rows formatPPP (report # rest) =
     (case export_row formatPPP report of
        None \<Rightarrow> None
      | Some row \<Rightarrow>
          (case export_rows formatPPP rest of
             None \<Rightarrow> None
           | Some rows \<Rightarrow> Some (row # rows)))"

definition exportToCSV ::
  "(string \<Rightarrow> string option) \<Rightarrow> table_state \<Rightarrow> (string \<times> string) list list option" where
  "exportToCSV formatPPP s = export_rows formatPPP (reports s)"

section \<open>The image cache of the PDF renderer\<close>

record cached_image =
  url :: string
  timestamp :: int

type_synonym image_cache = "string \<rightharpoonup> cached_image"

definition CACHE_TTL :: int where
  "CACHE_TTL = 5 * 60 * 1000"

text \<open>
  What \<open>loadImage\<close> reads from its surroundings: the two readings of \<open>Date.now()\<close> (at the
  cache check and when the entry is stored), the configured base address, and the result of
  fetching an address and converting the body to a data URL (\<open>None\<close> when the fetch throws
  or the response is not ok).
\<close>

record image_env =
  now_at_check :: int
  now_at_store :: int
  VITE_SUPABASE_URL :: string
  fetch_data_url :: "string \<Rightarrow> string option"

definition startsWith :: "string \<Rightarrow> string \<Rightarrow> bool" where
  "startsWith s prefix \<longleftrightarrow> take (length prefix) s = prefix"

text \<open>The address that is fetched for a source that is neither cached nor embedded data.\<close>

definition image_address :: "image_env \<Rightarrow> string \<Rightarrow> bool \<Rightarrow> string" where
  "image_address env src isActionPlan =
     (if startsWith src ''http'' then src
      else VITE_SUPABASE_URL env @ ''/storage/v1/object/public/'' @
           (if isActionPlan then ''action-plan-images'' else ''safety-images'') @ ''/'' @ src)"

text \<open>
  The result of a call of \<open>loadImage\<close>: the returned value (\<open>None\<close> for \<open>null\<close>), the
  addresses fetched during the call, and the cache afterwards.
\<close>

record load_result =
  returned :: "string option"
  fetched :: "string list"
  cache_after :: image_cache

text \<open>The part of \<open>loadImage\<close> after the cache check.\<close>

definition load_fresh :: "image_env \<Rightarrow> string \<Rightarrow> bool \<Rightarrow> image_cache \<Rightarrow> load_result" where
  "load_fresh env src isActionPlan imageCache =
     (if startsWith src ''data:image''
      then \<lparr>returned = Some src, fetched = [], cache_after = imageCache\<rparr>
      else
        (case fetch_data_url env (image_address env src isActionPlan) of
           None \<Rightarrow>
             \<lparr>returned = None, fetched = [image_address env src isActionPlan],
              cache_after = imageCache\<rparr>
         | Some base64 \<Rightarrow>
             \<lparr>returned = Some base64, fetched = [image_address env src isActionPlan],
              cache_after = imageCache(src \<mapsto> \<lparr>url = base64, timestamp = now_at_store env\<rparr>)\<rparr>))"

definition loadImage :: "image_env \<Rightarrow> string \<Rightarrow> bool \<Rightarrow> image_cache \<Rightarrow> load_result" where
  "loadImage env src isActionPlan imageCache =
     (case imageCache src of
        Some cachedImage \<Rightarrow>
          (if now_at_check env - timestamp cachedImage < CACHE_TTL
           then \<lparr>returned = Some (url cachedImage), fetched = [], cache_after = imageCache\<rparr>
           else load_fresh env src isActionPlan imageCache)
      | None \<Rightarrow> load_fresh env src isActionPlan imageCache)"

section \<open>Example inputs\<close>

text \<open>
  A signed-in store without rows whose calls all succeed and whose generated ids are
  \<open>obs-1\<close> for the first row of a request and \<open>row-n\<close> for the others; a complete draft
  with one selected category and two staged action plans.
\<close>

definition example_backend :: backend where
  "example_backend =
     \<lparr>observation_details = [], observation_categories = [], action_plans = [],
      projects = [(''p1'', ''Plant'')], companies = [(''k1'', ''Acme'')], storage_objects = [],
      auth_user = Some ''u1'', replies = (\<lambda>n. Succeeds),
      generated_id = (\<lambda>n k. if k = 0 then ''obs-1'' else ''row-n''),
      generated_timestamp = (\<lambda>n. ''2024-05-01T10:00:00Z''), calls = []\<rparr>"

definition example_plan :: "string \<Rightarrow> ActionPlan" where
  "example_plan a =
     \<lparr>plan_action = a, plan_dueDate = ''2024-06-01'', plan_responsiblePerson = ''Ana'',
      plan_followUpContact = ''Ben'', plan_status = ''open''\<rparr>"

definition example_form :: create_state where
  "example_form =
     \<lparr>project = ''p1'', company = ''k1'', submitterName = ''Ana'', date = ''2024-05-01'',
      time = ''10:00'', department = [], location = ''Gate 2'', description = ''Loose cable'',
      reportGroup = ''finding'', consequences = ''minor'', likelihood = ''possible'',
      status = ''open'', subject = ''SOP'', imageFile = None, selectedCategories = [''c1''],
      actionPlans = [example_plan ''Fix cable'', example_plan ''Brief crew''],
      actionPlanRequired = ''yes'', validationErrors = [], loading = False, error = None\<rparr>"

definition example_backend_failing_at :: "nat \<Rightarrow> backend" where
  "example_backend_failing_at n =
     example_backend\<lparr>replies := (\<lambda>k. if k = n then Fails ''unavailable'' else Succeeds)\<rparr>"

text \<open>
  A store holding the open report \<open>obs-1\<close> with two open action plans and one category link,
  next to an action plan and a category link of another report; and the state of the edit
  form for \<open>obs-1\<close> with the status set to closed and the category \<open>c2\<close> selected.
\<close>

definition example_action_plan_row :: "ident \<Rightarrow> ident \<Rightarrow> action_plan_row" where
  "example_action_plan_row i obs =
     \<lparr>ap_observation_id = obs, ap_action = ''Fix cable'', ap_due_date = ''2024-06-01'',
      ap_responsible_person = ''Ana'', ap_follow_up_contact = ''Ben'', ap_status = ''open'',
      ap_supporting_image = None, ap_created_by = ''u1'', ap_id = i\<rparr>"

definition example_observation_row :: "ident \<Rightarrow> string \<Rightarrow> observation_row" where
  "example_observation_row i created =
     \<lparr>obs_project_id = ''p1'', obs_company_id = ''k1'', obs_submitter_name = ''Ana'',
      obs_date = ''2024-05-01'', obs_time = ''10:00'', obs_department = [],
      obs_location = ''Gate 2'', obs_description = ''Loose cable'',
      obs_report_group = ''finding'', obs_consequences = ''minor'',
      obs_likelihood = ''possible'', obs_status = ''open'', obs_subject = ''SOP'',
      obs_supporting_image = None, obs_corrective_action = True, obs_created_by = ''u1'',
      obs_id = i, obs_created_at = created\<rparr>"

definition example_store :: backend where
  "example_store =
     example_backend
       \<lparr>observation_details := [example_observation_row ''obs-1'' ''2024-05-01T10:00:00Z''],
        observation_categories :=
          [\<lparr>link_observation_id = ''obs-1'', link_category_id = ''c1''\<rparr>,
           \<lparr>link_observation_id = ''obs-9'', link_category_id = ''c1''\<rparr>],
        action_plans :=
          [example_action_plan_row ''a1'' ''obs-1'', example_action_plan_row ''a2'' ''obs-9'',
           example_action_plan_row ''a3'' ''obs-1'']\<rparr>"

definition example_view_plan :: "ident \<Rightarrow> ViewActionPlan" where
  "example_view_plan i =
     \<lparr>vp_id = Some i, vp_action = ''Fix cable'', vp_due_date = ''2024-06-01'',
      vp_responsible_person = ''Ana'', vp_follow_up_contact = ''Ben'', vp_status = ''open'',
      vp_supporting_image = []\<rparr>"

definition example_view :: view_state where
  "example_view =
     \<lparr>project = ''p1'', company = ''k1'', submitterName = ''Ana'', date = ''2024-05-01'',
      time = ''10:00'', department = [], location = ''Gate 2'', description = ''Loose cable'',
      reportGroup = ''finding'', consequences = ''minor'', likelihood = ''possible'',
      status = ''closed'', subject = ''SOP'', imageFile = None, selectedCategories = [''c2''],
      actionPlans = [example_view_plan ''a1'', example_view_plan ''a3''],
      actionPlanRequired = ''yes'', id_param = Some ''obs-1'', report_image = None,
      saving = False\<rparr>"

text \<open>The example store with the reply to its \<open>n\<close>-th call turned into an error.\<close>

definition example_store_failing_at :: "nat \<Rightarrow> backend" where
  "example_store_failing_at n =
     example_store\<lparr>replies := (\<lambda>k. if k = n then Fails ''unavailable'' else Succeeds)\<rparr>"

text \<open>The example store after the example edit has been submitted.\<close>

definition example_closed_store :: backend where
  "example_closed_store = snd (snd (handleSubmitEdit (\<lambda>name. name) example_view 0 example_store))"

text \<open>
  A row of the reports table for \<open>obs-1\<close>, the initial state of the table (first page,
  newest first, no filter), a store with eleven reports, and surroundings for the image
  cache in which every fetch succeeds and storing takes 40 ms.
\<close>

definition example_report :: SafetyReport where
  "example_report =
     \<lparr>sr_id = ''obs-1'', sr_subject = ''SOP'', sr_submitter_name = ''Ana'',
      sr_date = ''2024-05-01'', sr_description = ''Loose cable'', sr_consequences = ''minor'',
      sr_status = ''open'', sr_created_at = ''2024-05-01T10:00:00Z'', sr_projects = ''Plant'',
      sr_companies = ''Acme'', sr_action_plans = []\<rparr>"

definition example_table :: table_state where
  "example_table =
     \<lparr>reports = [], table_loading = True, table_error = [], currentPage = 1, totalPages = 1,
      reportToDelete = None, filters_dateRange_start = [], filters_dateRange_end = [],
      filters_status = [], filters_severity = [], sortConfig_key = K_created_at,
      sortConfig_direction = Desc\<rparr>"

definition example_reports_store :: backend where
  "example_reports_store =
     example_backend
       \<lparr>observation_details :=
          map (\<lambda>n. example_observation_row (''obs-'' @ decimal n) ''2024-05-01T10:00:00Z'')
            [0..<11]\<rparr>"

definition example_image_env :: "int \<Rightarrow> image_env" where
  "example_image_env t =
     \<lparr>now_at_check = t, now_at_store = t + 40, VITE_SUPABASE_URL = ''https://x.example'',
      fetch_data_url = (\<lambda>address. Some (''data:image/png;base64,'' @ address))\<rparr>"

section \<open>Facts about the store operations\<close>

lemma calls_auth_get_user:
  "calls (snd (auth_get_user b)) = calls b @ [(AuthGetUser, next_reply b)]"
  by (simp add: auth_get_user_def logged_def split: reply.splits)

lemma calls_storage_upload:
  "calls (snd (storage_upload bucket key b)) = calls b @ [(StorageUpload bucket key, next_reply b)]"
  by (simp add: storage_upload_def logged_def split: reply.splits)

lemma calls_insert_observation:
  "calls (snd (insert_observation p b)) = calls b @ [(InsertObservation p, next_reply b)]"
  by (simp add: insert_observation_def logged_def split: reply.splits)

lemma calls_insert_categories:
  "calls (snd (insert_categories rows b)) = calls b @ [(InsertCategories rows, next_reply b)]"
  by (simp add: insert_categories_def logged_def split: reply.splits)

lemma calls_insert_action_plans:
  "calls (snd (insert_action_plans rows b)) = calls b @ [(InsertActionPlans rows, next_reply b)]"
  by (simp add: insert_action_plans_def logged_def split: reply.splits)

lemma frame_auth_get_user:
  "generated_id (snd (auth_get_user b)) = generated_id b"
  "observation_details (snd (auth_get_user b)) = observation_details b"
  "observation_categories (snd (auth_get_user b)) = observation_categories b"
  "action_plans (snd (auth_get_user b)) = action_plans b"
  by (simp_all add: auth_get_user_def logged_def split: reply.splits)

lemma frame_storage_upload:
  "generated_id (snd (storage_upload bucket key b)) = generated_id b"
  "observation_details (snd (storage_upload bucket key b)) = observation_details b"
  "observation_categories (snd (storage_upload bucket key b)) = observation_categories b"
  "action_plans (snd (storage_upload bucket key b)) = action_plans b"
  by (simp_all add: storage_upload_def logged_def split: reply.splits)

lemma frame_insert_observation:
  "observation_categories (snd (insert_observation p b)) = observation_categories b"
  "action_plans (snd (insert_observation p b)) = action_plans b"
  by (simp_all add: insert_observation_def logged_def split: reply.splits)

lemma frame_insert_categories:
  "observation_details (snd (insert_categories rows b)) = observation_details b"
  "action_plans (snd (insert_categories rows b)) = action_plans b"
  by (simp_all add: insert_categories_def logged_def split: reply.splits)

lemma frame_insert_action_plans:
  "observation_details (snd (insert_action_plans rows b)) = observation_details b"
  "observation_categories (snd (insert_action_plans rows b)) = observation_categories b"
  by (simp_all add: insert_action_plans_def logged_def split: reply.splits)

lemma insert_observation_result:
  "insert_observation p b = (res, b') \<Longrightarrow>
     (case res of
        Inl e \<Rightarrow> next_reply b = Fails e
      | Inr None \<Rightarrow> next_reply b = SucceedsWithoutData
      | Inr (Some row) \<Rightarrow> next_reply b = Succeeds \<and> row \<in> set (observation_details b') \<and>
          obs_id row = generated_id b (length (calls b)) 0)"
  by (auto simp: insert_observation_def new_observation_row_def logged_def split: reply.splits)

lemma insert_action_plans_result:
  "insert_action_plans rows b = (res, b') \<Longrightarrow>
     (case next_reply b of
        Fails m \<Rightarrow> res = Some m \<and> action_plans b' = action_plans b
      | _ \<Rightarrow> res = None \<and>
          action_plans b' = action_plans b @ map (new_action_plan_row b) (enumerate 0 rows))"
  by (auto simp: insert_action_plans_def logged_def split: reply.splits)

lemma fields_of_new_action_plan_rows:
  "map (ap_action \<circ> new_action_plan_row b) (enumerate n rows) = map ap_action rows"
  "map (ap_observation_id \<circ> new_action_plan_row b) (enumerate n rows) =
     map ap_observation_id rows"
  by (induction rows arbitrary: n) (simp_all add: new_action_plan_row_def)

section \<open>The create form: the steps of \<open>handleSubmit\<close>\<close>

lemma referenced_category_rows:
  "map link_observation_id (category_rows i cs) = replicate (length cs) i"
  by (induction cs) (simp_all add: category_rows_def)

lemma referenced_action_plan_rows:
  "map ap_observation_id (action_plan_rows i u ps) = replicate (length ps) i"
  by (induction ps) (simp_all add: action_plan_rows_def)

lemma actions_of_action_plan_rows:
  "map ap_action (action_plan_rows i u ps) = map plan_action ps"
  by (induction ps) (simp_all add: action_plan_rows_def)

lemma calls_upload_image:
  "\<exists>U. calls (snd (upload_image f now b)) = calls b @ U \<and>
     (\<forall>c \<in> set U. referenced (fst c) = None \<and> (\<forall>q. fst c \<noteq> InsertObservation q))"
  by (auto simp: upload_image_def calls_storage_upload split: option.splits)

lemma frame_upload_image:
  "generated_id (snd (upload_image f now b)) = generated_id b"
  "action_plans (snd (upload_image f now b)) = action_plans b"
  by (simp_all add: upload_image_def frame_storage_upload split: option.splits)

lemma calls_save_categories:
  "calls (snd (save_categories f i b)) =
     calls b @ (if selectedCategories f = [] then []
                else [(InsertCategories (category_rows i (selectedCategories f)), next_reply b)])"
  using calls_insert_categories[of "category_rows i (selectedCategories f)" b]
  by (auto simp: save_categories_def split: prod.splits option.splits)

lemma frame_save_categories:
  "observation_details (snd (save_categories f i b)) = observation_details b"
  "action_plans (snd (save_categories f i b)) = action_plans b"
  using frame_insert_categories[of "category_rows i (selectedCategories f)" b]
  by (auto simp: save_categories_def split: prod.splits option.splits)

lemma calls_save_action_plans:
  "calls (snd (save_action_plans f i u b)) =
     calls b @ (if actionPlans f = [] then []
                else [(InsertActionPlans (action_plan_rows i u (actionPlans f)), next_reply b)])"
  using calls_insert_action_plans[of "action_plan_rows i u (actionPlans f)" b]
  by (auto simp: save_action_plans_def split: prod.splits option.splits)

lemma frame_save_action_plans:
  "observation_details (snd (save_action_plans f i u b)) = observation_details b"
  using frame_insert_action_plans(1)[of "action_plan_rows i u (actionPlans f)" b]
  by (auto simp: save_action_plans_def split: prod.splits option.splits)

lemma save_action_plans_result:
  assumes "save_action_plans f i u b = (res, b')" and "actionPlans f \<noteq> []"
  shows "case next_reply b of
           Fails m \<Rightarrow> res = Some ''Failed to save action plans'' \<and>
             action_plans b' = action_plans b
         | _ \<Rightarrow> res = None \<and>
             action_plans b' = action_plans b @
               map (new_action_plan_row b) (enumerate 0 (action_plan_rows i u (actionPlans f)))"
proof -
  obtain r0 b0 where P: "insert_action_plans (action_plan_rows i u (actionPlans f)) b = (r0, b0)"
    by (cases "insert_action_plans (action_plan_rows i u (actionPlans f)) b")
  from insert_action_plans_result[OF P] assms P show ?thesis
    by (cases "next_reply b") (auto simp: save_action_plans_def)
qed

lemma save_action_plans_nothing:
  "actionPlans f = [] \<Longrightarrow> save_action_plans f i u b = (None, b)"
  by (simp add: save_action_plans_def)

text \<open>The writes after the saved report: what they reference.\<close>

lemma save_dependents_trace:
  "\<exists>B. calls (snd (save_dependents f i u b)) = calls b @ B \<and> dependents_only i B \<and>
       observation_details (snd (save_dependents f i u b)) = observation_details b"
proof (cases "save_categories f i b")
  case (Pair e b4)
  have c4: "calls b4 = calls (snd (save_categories f i b))"
    and o4: "observation_details b4 = observation_details (snd (save_categories f i b))"
    using Pair by simp_all
  show ?thesis
  proof (cases e)
    case (Some thrown)
    then have "snd (save_dependents f i u b) = b4"
      by (simp add: save_dependents_def Pair)
    then show ?thesis
      using c4 o4
      by (auto simp: calls_save_categories frame_save_categories dependents_only_def
            referenced_category_rows)
  next
    case None
    obtain e' b5 where P5: "save_action_plans f i u b4 = (e', b5)"
      by (cases "save_action_plans f i u b4")
    have "snd (save_dependents f i u b) = b5"
      using Pair None P5 by (cases e') (simp_all add: save_dependents_def)
    moreover have "calls b5 = calls (snd (save_action_plans f i u b4))"
      "observation_details b5 = observation_details (snd (save_action_plans f i u b4))"
      using P5 by simp_all
    ultimately show ?thesis
      using c4 o4
      by (auto simp: calls_save_categories frame_save_categories calls_save_action_plans
            frame_save_action_plans dependents_only_def
            referenced_category_rows referenced_action_plan_rows)
  qed
qed

text \<open>The writes after the saved report: the one request for the action plans.\<close>

lemma save_dependents_action_plans:
  "\<exists>C P. calls (snd (save_dependents f i u b)) = calls b @ C @ P \<and>
     (\<forall>c \<in> set C. \<not> writes_action_plans (fst c)) \<and>
     ((P = [] \<and> action_plans (snd (save_dependents f i u b)) = action_plans b \<and>
       (actionPlans f \<noteq> [] \<longrightarrow> (\<exists>m. fst (save_dependents f i u b) = Inl m))) \<or>
      (\<exists>rep. P = [(InsertActionPlans (action_plan_rows i u (actionPlans f)), rep)] \<and>
         actionPlans f \<noteq> [] \<and>
         (case rep of
            Fails m \<Rightarrow>
              fst (save_dependents f i u b) = Inl ''Failed to save action plans'' \<and>
              action_plans (snd (save_dependents f i u b)) = action_plans b
          | _ \<Rightarrow>
              fst (save_dependents f i u b) = Inr i \<and>
              (\<exists>rows. action_plans (snd (save_dependents f i u b)) = action_plans b @ rows \<and>
                 map ap_action rows = map plan_action (actionPlans f) \<and>
                 map ap_observation_id rows = replicate (length (actionPlans f)) i))))"
  (is "\<exists>C P. ?Q C P")
proof (cases "save_categories f i b")
  case (Pair e b4)
  have c4: "calls b4 = calls (snd (save_categories f i b))"
    and a4: "action_plans b4 = action_plans (snd (save_categories f i b))"
    using Pair by simp_all
  let ?C = "if selectedCategories f = [] then []
            else [(InsertCategories (category_rows i (selectedCategories f)), next_reply b)]"
  have C: "\<forall>c \<in> set ?C. \<not> writes_action_plans (fst c)" by simp
  show ?thesis
  proof (cases e)
    case (Some thrown)
    then have E: "save_dependents f i u b = (Inl thrown, b4)"
      by (simp add: save_dependents_def Pair)
    have "?Q ?C []"
      using c4 a4 C by (simp add: E calls_save_categories frame_save_categories)
    then show ?thesis by blast
  next
    case None
    obtain e' b5 where P5: "save_action_plans f i u b4 = (e', b5)"
      by (cases "save_action_plans f i u b4")
    have E: "save_dependents f i u b = (case e' of Some thrown \<Rightarrow> Inl thrown | None \<Rightarrow> Inr i, b5)"
      using Pair None P5 by (cases e') (simp_all add: save_dependents_def)
    have c5: "calls b5 = calls (snd (save_action_plans f i u b4))" using P5 by simp
    show ?thesis
    proof (cases "actionPlans f = []")
      case True
      then have "b5 = b4" using P5 by (simp add: save_action_plans_nothing)
      then have "?Q ?C []"
        using c4 a4 C True by (simp add: E calls_save_categories frame_save_categories)
      then show ?thesis by blast
    next
      case False
      let ?rows = "action_plan_rows i u (actionPlans f)"
      let ?P = "[(InsertActionPlans ?rows, next_reply b4)]"
      note R = save_action_plans_result[OF P5 False]
      have 1: "calls (snd (save_dependents f i u b)) = calls b @ ?C @ ?P"
        using c4 c5 False by (simp add: E calls_save_categories calls_save_action_plans)
      have 2: "case next_reply b4 of
            Fails m \<Rightarrow>
              fst (save_dependents f i u b) = Inl ''Failed to save action plans'' \<and>
              action_plans (snd (save_dependents f i u b)) = action_plans b
          | _ \<Rightarrow>
              fst (save_dependents f i u b) = Inr i \<and>
              (\<exists>rows. action_plans (snd (save_dependents f i u b)) = action_plans b @ rows \<and>
                 map ap_action rows = map plan_action (actionPlans f) \<and>
                 map ap_observation_id rows = replicate (length (actionPlans f)) i)"
        using R a4
        by (cases "next_reply b4")
           (auto simp: E frame_save_categories fields_of_new_action_plan_rows
              actions_of_action_plan_rows referenced_action_plan_rows)
      have "?Q ?C ?P" using 1 2 C False by blast
      then show ?thesis by blast
    qed
  qed
qed


text \<open>
  The \<open>try\<close> block either stops before any write that references the report, or it has
  saved the report and goes on with the dependent writes.
\<close>

lemma submit_try_cases:
  obtains (stopped) A m where
      "calls (snd (submit_try f now b)) = calls b @ A"
      "\<forall>c \<in> set A. referenced (fst c) = None"
      "action_plans (snd (submit_try f now b)) = action_plans b"
      "fst (submit_try f now b) = Inl m"
    | (saved) front p user b3 where
      "calls b3 = calls b @ front @ [(InsertObservation p, Succeeds)]"
      "\<forall>c \<in> set front. referenced (fst c) = None \<and> (\<forall>q. fst c \<noteq> InsertObservation q)"
      "generated_id b (length (calls b) + length front) 0 \<in> obs_id ` set (observation_details b3)"
      "action_plans b3 = action_plans b"
      "submit_try f now b =
         save_dependents f (generated_id b (length (calls b) + length front) 0) user b3"
proof -
  obtain uo b1 where P1: "auth_get_user b = (uo, b1)" by (cases "auth_get_user b")
  have c1: "calls b1 = calls b @ [(AuthGetUser, next_reply b)]"
    and g1: "generated_id b1 = generated_id b" and a1: "action_plans b1 = action_plans b"
    using calls_auth_get_user[of b] frame_auth_get_user[of b] P1 by simp_all
  show ?thesis
  proof (cases uo)
    case None
    then have "submit_try f now b = (Inl ''User not authenticated'', b1)"
      by (simp add: submit_try_def P1)
    then show ?thesis using c1 a1 by (intro stopped[of "[(AuthGetUser, next_reply b)]"]) simp_all
  next
    case (Some user)
    obtain ur b2 where P2: "upload_image f now b1 = (ur, b2)" by (cases "upload_image f now b1")
    obtain U where c2: "calls b2 = calls b1 @ U" and U: "\<forall>c \<in> set U. referenced (fst c) = None"
      "\<forall>c \<in> set U. \<forall>q. fst c \<noteq> InsertObservation q"
      using calls_upload_image[of f now b1] P2 by auto
    have g2: "generated_id b2 = generated_id b" and a2: "action_plans b2 = action_plans b"
      using frame_upload_image[of f now b1] P2 g1 a1 by simp_all
    show ?thesis
    proof (cases ur)
      case (Inl e)
      then have "submit_try f now b = (Inl e, b2)" by (simp add: submit_try_def P1 Some P2)
      then show ?thesis using c1 c2 U a2
        by (intro stopped[of "(AuthGetUser, next_reply b) # U"]) auto
    next
      case (Inr imagePath)
      let ?p = "observation_payload f imagePath user"
      obtain res b3 where P3: "insert_observation ?p b2 = (res, b3)"
        by (cases "insert_observation ?p b2")
      have c3: "calls b3 = calls b2 @ [(InsertObservation ?p, next_reply b2)]"
        and a3: "action_plans b3 = action_plans b"
        using calls_insert_observation[of ?p b2] frame_insert_observation[of ?p b2] P3 a2
        by simp_all
      note R3 = insert_observation_result[OF P3]
      let ?A = "(AuthGetUser, next_reply b) # U @ [(InsertObservation ?p, next_reply b2)]"
      have stop: ?thesis if "submit_try f now b = (Inl m, b3)" for m
        using that c1 c2 c3 U a3 by (intro stopped[of ?A m]) auto
      show ?thesis
      proof (cases res)
        case (Inl e)
        then have "submit_try f now b = (Inl ''Failed to save observation'', b3)"
          by (simp add: submit_try_def P1 Some P2 Inr P3)
        from stop[OF this] show ?thesis .
      next
        case Inr2: (Inr ro)
        show ?thesis
        proof (cases ro)
          case None
          then have "submit_try f now b = (Inl ''No report data returned after save'', b3)"
            by (simp add: submit_try_def P1 Some P2 Inr P3 Inr2)
          from stop[OF this] show ?thesis .
        next
          case Some3: (Some savedReport)
          let ?front = "(AuthGetUser, next_reply b) # U"
          have ok: "next_reply b2 = Succeeds" and row: "savedReport \<in> set (observation_details b3)"
            and rid: "obs_id savedReport = generated_id b (length (calls b) + length ?front) 0"
            using R3 Inr2 Some3 g2 c1 c2 by simp_all
          have E: "submit_try f now b = save_dependents f (obs_id savedReport) user b3"
            by (simp add: submit_try_def P1 Some P2 Inr P3 Inr2 Some3)
          show ?thesis
          proof (rule saved[of b3 ?front ?p user])
            show "calls b3 = calls b @ ?front @ [(InsertObservation ?p, Succeeds)]"
              using c1 c2 c3 ok by simp
            show "\<forall>c \<in> set ?front. referenced (fst c) = None \<and> (\<forall>q. fst c \<noteq> InsertObservation q)"
              using U by auto
            show "generated_id b (length (calls b) + length ?front) 0
                    \<in> obs_id ` set (observation_details b3)"
              using row rid by (metis image_eqI)
            show "action_plans b3 = action_plans b" by (rule a3)
            show "submit_try f now b =
              save_dependents f (generated_id b (length (calls b) + length ?front) 0) user b3"
              using E rid by simp
          qed
        qed
      qed
    qed
  qed
qed

lemma split_after:
  assumes "xs @ ys = pre @ z # post" and "z \<notin> set xs"
  shows "\<exists>rest. pre = xs @ rest \<and> ys = rest @ z # post"
proof -
  from assms(1) obtain us where
    "(xs = pre @ us \<and> us @ ys = z # post) \<or> (xs @ us = pre \<and> ys = us @ z # post)"
    by (auto simp: append_eq_append_conv2)
  then show ?thesis
  proof
    assume A: "xs = pre @ us \<and> us @ ys = z # post"
    show ?thesis
    proof (cases us)
      case Nil
      with A show ?thesis by simp
    next
      case (Cons u us')
      with A have "z \<in> set xs" by simp
      with assms(2) show ?thesis by simp
    qed
  next
    assume "xs @ us = pre \<and> ys = us @ z # post"
    then show ?thesis by auto
  qed
qed

lemma submit_try_dependent_after_observation:
  assumes eq: "calls (snd (submit_try f now b)) = calls b @ pre @ (req, rep) # post"
      and refs: "referenced req = Some refs"
  shows "\<exists>p front rest. pre = front @ (InsertObservation p, Succeeds) # rest \<and>
           (\<forall>r \<in> set refs. r = generated_id b (length (calls b) + length front) 0) \<and>
           generated_id b (length (calls b) + length front) 0
             \<in> obs_id ` set (observation_details (snd (submit_try f now b)))"
proof (cases rule: submit_try_cases[of f now b])
  case (stopped A m)
  have "A = pre @ (req, rep) # post" using eq stopped(1) by simp
  then have "(req, rep) \<in> set A" by simp
  then have "referenced req = None" using stopped(2) by fastforce
  then show ?thesis using refs by simp
next
  case (saved front p user b3)
  let ?i = "generated_id b (length (calls b) + length front) 0"
  obtain B where B: "calls (snd (save_dependents f ?i user b3)) = calls b3 @ B"
    "dependents_only ?i B"
    "observation_details (snd (save_dependents f ?i user b3)) = observation_details b3"
    using save_dependents_trace[of f ?i user b3] by blast
  have c: "calls (snd (submit_try f now b)) = calls b @ (front @ [(InsertObservation p, Succeeds)]) @ B"
    and o: "observation_details (snd (submit_try f now b)) = observation_details b3"
    using B(1,3) saved(1) by (simp_all only: saved(5) append_assoc)
  have e1: "(front @ [(InsertObservation p, Succeeds)]) @ B = pre @ (req, rep) # post"
    using eq c by simp
  have e2: "(req, rep) \<notin> set (front @ [(InsertObservation p, Succeeds)])"
    using saved(2) refs by auto
  from split_after[OF e1 e2] obtain rest where
    r: "pre = (front @ [(InsertObservation p, Succeeds)]) @ rest" "B = rest @ (req, rep) # post"
    by (elim exE conjE)
  have "(req, rep) \<in> set B" using r(2) by simp
  then obtain refs' where "referenced req = Some refs'" "\<forall>r \<in> set refs'. r = ?i"
    using B(2) unfolding dependents_only_def by fastforce
  then have all: "\<forall>r \<in> set refs. r = ?i" using refs by simp
  have pre: "pre = front @ (InsertObservation p, Succeeds) # rest" using r(1) by simp
  have "?i \<in> obs_id ` set (observation_details (snd (submit_try f now b)))"
    using saved(3) by (simp only: o)
  with pre all show ?thesis by blast
qed

lemma submit_try_failed_observation:
  assumes eq: "calls (snd (submit_try f now b)) = calls b @ pre @ (InsertObservation q, rep) # post"
      and rep: "rep \<noteq> Succeeds" and c: "c \<in> set (pre @ post)"
  shows "referenced (fst c) = None"
proof (cases rule: submit_try_cases[of f now b])
  case (stopped A m)
  have "A = pre @ (InsertObservation q, rep) # post" using eq stopped(1) by simp
  then have "c \<in> set A" using c by auto
  then show ?thesis using stopped(2) by simp
next
  case (saved front p user b3)
  let ?i = "generated_id b (length (calls b) + length front) 0"
  obtain B where B: "calls (snd (save_dependents f ?i user b3)) = calls b3 @ B"
    "dependents_only ?i B"
    using save_dependents_trace[of f ?i user b3] by blast
  have "calls (snd (submit_try f now b)) = calls b @ front @ [(InsertObservation p, Succeeds)] @ B"
    using B(1) saved(1) by (simp only: saved(5) append_assoc)
  then have "front @ [(InsertObservation p, Succeeds)] @ B = pre @ (InsertObservation q, rep) # post"
    using eq by simp
  then have "(InsertObservation q, rep) \<in> set (front @ [(InsertObservation p, Succeeds)] @ B)"
    by simp
  then have "(InsertObservation q, rep) \<in> set front \<or> (InsertObservation q, rep) \<in> set B"
    using rep by simp
  then show ?thesis
  proof
    assume "(InsertObservation q, rep) \<in> set front"
    then show ?thesis using saved(2) by fastforce
  next
    assume "(InsertObservation q, rep) \<in> set B"
    then show ?thesis using B(2) unfolding dependents_only_def by fastforce
  qed
qed

lemma handleSubmit_backend:
  assumes "handleSubmit f now b = (outcome, f', b')"
  shows "b' = b \<or> b' = snd (submit_try (snd (validateForm f)) now b)"
  using assms by (auto simp: handleSubmit_def split: if_splits prod.splits sum.splits)

section \<open>Claims about the create form\<close>

text \<open>
  Claim C1. In the create form's submit operation, every write of category links or action
  plans comes after a successful insert of the observation in the same submission, references
  only the id which that insert generated, and that observation is a row of the store when the
  submission ends. If the insert of the observation is answered with an error, or returns no
  row, no category-link write and no action-plan write is attempted.
\<close>

theorem handleSubmit_observation_first:
  assumes "handleSubmit f now b = (outcome, f', b')"
  shows "(\<forall>pre req rep post refs.
            calls b' = calls b @ pre @ (req, rep) # post \<and> referenced req = Some refs \<longrightarrow>
            (\<exists>p front rest. pre = front @ (InsertObservation p, Succeeds) # rest \<and>
               (\<forall>r \<in> set refs. r = generated_id b (length (calls b) + length front) 0) \<and>
               generated_id b (length (calls b) + length front) 0
                 \<in> obs_id ` set (observation_details b'))) \<and>
         (\<forall>pre p rep post.
            calls b' = calls b @ pre @ (InsertObservation p, rep) # post \<and>
            rep \<noteq> Succeeds \<longrightarrow>
            (\<forall>c \<in> set (pre @ post). referenced (fst c) = None))"
  using handleSubmit_backend[OF assms]
proof
  assume "b' = b"
  then show ?thesis by simp
next
  assume b': "b' = snd (submit_try (snd (validateForm f)) now b)"
  show ?thesis
    unfolding b'
    by (intro conjI allI impI ballI; elim conjE)
       (rule submit_try_dependent_after_observation, assumption, assumption,
        rule submit_try_failed_observation, assumption, assumption, assumption)
qed

lemmas create_flow_defs =
  handleSubmit_def validateForm_def errors_def submit_try_def save_dependents_def
  save_categories_def save_action_plans_def upload_image_def
  auth_get_user_def insert_observation_def insert_categories_def insert_action_plans_def
  logged_def next_reply_def new_observation_row_def

lemmas example_defs =
  example_form_def example_backend_def example_backend_failing_at_def example_plan_def

lemma example_trace:
  "calls (snd (snd (handleSubmit example_form 0 example_backend))) =
     [(AuthGetUser, Succeeds),
      (InsertObservation (observation_payload example_form [] ''u1''), Succeeds),
      (InsertCategories (category_rows ''obs-1'' [''c1'']), Succeeds),
      (InsertActionPlans (action_plan_rows ''obs-1'' ''u1'' (actionPlans example_form)),
       Succeeds)]"
  by (simp add: create_flow_defs example_form_def example_backend_def observation_payload_def)

lemma example_trace_failing_observation:
  "calls (snd (snd (handleSubmit example_form 0 (example_backend_failing_at 1)))) =
     [(AuthGetUser, Succeeds),
      (InsertObservation (observation_payload example_form [] ''u1''), Fails ''unavailable'')]"
  by (simp add: create_flow_defs example_form_def example_backend_def
        example_backend_failing_at_def observation_payload_def)

theorem handleSubmit_observation_first_witness:
  "(\<exists>outcome f' b'.
      handleSubmit example_form 0 example_backend = (outcome, f', b') \<and>
      calls b' = calls example_backend @
        [(AuthGetUser, Succeeds),
         (InsertObservation (observation_payload example_form [] ''u1''), Succeeds)] @
        (InsertCategories (category_rows ''obs-1'' [''c1'']), Succeeds) #
        [(InsertActionPlans (action_plan_rows ''obs-1'' ''u1'' (actionPlans example_form)),
          Succeeds)] \<and>
      referenced (InsertCategories (category_rows ''obs-1'' [''c1''])) = Some [''obs-1''] \<and>
      (\<exists>p front rest.
         [(AuthGetUser, Succeeds),
          (InsertObservation (observation_payload example_form [] ''u1''), Succeeds)] =
           front @ (InsertObservation p, Succeeds) # rest \<and>
         (\<forall>r \<in> set [''obs-1''].
            r = generated_id example_backend (length (calls example_backend) + length front) 0) \<and>
         generated_id example_backend (length (calls example_backend) + length front) 0
           \<in> obs_id ` set (observation_details b'))) \<and>
   (\<exists>outcome f' b'.
      handleSubmit example_form 0 (example_backend_failing_at 1) = (outcome, f', b') \<and>
      calls b' = calls (example_backend_failing_at 1) @ [(AuthGetUser, Succeeds)] @
        (InsertObservation (observation_payload example_form [] ''u1''), Fails ''unavailable'') #
        [] \<and>
      Fails ''unavailable'' \<noteq> Succeeds \<and>
      (\<forall>c \<in> set ([(AuthGetUser, Succeeds)] @ []). referenced (fst c) = None))"
proof (rule conjI)
  obtain outcome f' b' where
    H: "handleSubmit example_form 0 example_backend = (outcome, f', b')"
    by (cases "handleSubmit example_form 0 example_backend") auto
  have T: "calls b' = calls example_backend @
        [(AuthGetUser, Succeeds),
         (InsertObservation (observation_payload example_form [] ''u1''), Succeeds)] @
        (InsertCategories (category_rows ''obs-1'' [''c1'']), Succeeds) #
        [(InsertActionPlans (action_plan_rows ''obs-1'' ''u1'' (actionPlans example_form)),
          Succeeds)]"
    using example_trace H by (simp add: example_backend_def)
  have R: "referenced (InsertCategories (category_rows ''obs-1'' [''c1''])) = Some [''obs-1'']"
    by (simp add: category_rows_def)
  note C = handleSubmit_observation_first[OF H, THEN conjunct1, rule_format, OF conjI[OF T R]]
  show "\<exists>outcome f' b'.
      handleSubmit example_form 0 example_backend = (outcome, f', b') \<and>
      calls b' = calls example_backend @
        [(AuthGetUser, Succeeds),
         (InsertObservation (observation_payload example_form [] ''u1''), Succeeds)] @
        (InsertCategories (category_rows ''obs-1'' [''c1'']), Succeeds) #
        [(InsertActionPlans (action_plan_rows ''obs-1'' ''u1'' (actionPlans example_form)),
          Succeeds)] \<and>
      referenced (InsertCategories (category_rows ''obs-1'' [''c1''])) = Some [''obs-1''] \<and>
      (\<exists>p front rest.
         [(AuthGetUser, Succeeds),
          (InsertObservation (observation_payload example_form [] ''u1''), Succeeds)] =
           front @ (InsertObservation p, Succeeds) # rest \<and>
         (\<forall>r \<in> set [''obs-1''].
            r = generated_id example_backend (length (calls example_backend) + length front) 0) \<and>
         generated_id example_backend (length (calls example_backend) + length front) 0
           \<in> obs_id ` set (observation_details b'))"
    by (rule exI[of _ outcome], rule exI[of _ f'], rule exI[of _ b'], intro conjI)
       (rule H, rule T, rule R, rule C)
next
  obtain outcome f' b' where
    H: "handleSubmit example_form 0 (example_backend_failing_at 1) = (outcome, f', b')"
    by (cases "handleSubmit example_form 0 (example_backend_failing_at 1)") auto
  have T: "calls b' = calls (example_backend_failing_at 1) @ [(AuthGetUser, Succeeds)] @
        (InsertObservation (observation_payload example_form [] ''u1''), Fails ''unavailable'') #
        []"
    using example_trace_failing_observation H
    by (simp add: example_backend_def example_backend_failing_at_def)
  have N: "Fails ''unavailable'' \<noteq> Succeeds" by simp
  note C = handleSubmit_observation_first[OF H, THEN conjunct2, rule_format, OF conjI[OF T N]]
  show "\<exists>outcome f' b'.
      handleSubmit example_form 0 (example_backend_failing_at 1) = (outcome, f', b') \<and>
      calls b' = calls (example_backend_failing_at 1) @ [(AuthGetUser, Succeeds)] @
        (InsertObservation (observation_payload example_form [] ''u1''), Fails ''unavailable'') #
        [] \<and>
      Fails ''unavailable'' \<noteq> Succeeds \<and>
      (\<forall>c \<in> set ([(AuthGetUser, Succeeds)] @ []). referenced (fst c) = None)"
    by (rule exI[of _ outcome], rule exI[of _ f'], rule exI[of _ b'], intro conjI ballI)
       (rule H, rule T, rule N, erule C)
qed

lemma no_reference_no_action_plans:
  "referenced r = None \<Longrightarrow> \<not> writes_action_plans r"
  by (cases r) simp_all

lemma validateForm_keeps_draft:
  "actionPlans (snd (validateForm f)) = actionPlans f"
  "selectedCategories (snd (validateForm f)) = selectedCategories f"
  by (simp_all add: validateForm_def)

lemma handleSubmit_outcome:
  "handleSubmit f now b =
     (if \<not> fst (validateForm f)
      then (Rejected ''Please fill in all required fields'', snd (validateForm f), b)
      else (case fst (submit_try (snd (validateForm f)) now b) of
              Inl m \<Rightarrow> SubmitFailed m
            | Inr i \<Rightarrow> Navigated (''/reports/'' @ i),
            fst (snd (handleSubmit f now b)),
            snd (submit_try (snd (validateForm f)) now b)))"
  by (auto simp: handleSubmit_def split: prod.splits sum.splits)

lemma submit_try_action_plans:
  "\<exists>C P. calls (snd (submit_try f now b)) = calls b @ C @ P \<and>
     (\<forall>c \<in> set C. \<not> writes_action_plans (fst c)) \<and>
     ((P = [] \<and> action_plans (snd (submit_try f now b)) = action_plans b \<and>
       (actionPlans f \<noteq> [] \<longrightarrow> (\<exists>m. fst (submit_try f now b) = Inl m))) \<or>
      (\<exists>savedId user rep.
         P = [(InsertActionPlans (action_plan_rows savedId user (actionPlans f)), rep)] \<and>
         actionPlans f \<noteq> [] \<and>
         (case rep of
            Fails m \<Rightarrow>
              fst (submit_try f now b) = Inl ''Failed to save action plans'' \<and>
              action_plans (snd (submit_try f now b)) = action_plans b
          | _ \<Rightarrow>
              fst (submit_try f now b) = Inr savedId \<and>
              (\<exists>rows. action_plans (snd (submit_try f now b)) = action_plans b @ rows \<and>
                 map ap_action rows = map plan_action (actionPlans f) \<and>
                 map ap_observation_id rows = replicate (length (actionPlans f)) savedId))))"
  (is "\<exists>C P. ?Q C P")
proof (cases rule: submit_try_cases[of f now b])
  case (stopped A m)
  have "\<forall>c \<in> set A. \<not> writes_action_plans (fst c)"
    using stopped(2) no_reference_no_action_plans by blast
  then have "?Q A []" using stopped by simp
  then show ?thesis by blast
next
  case (saved front p user b3)
  let ?i = "generated_id b (length (calls b) + length front) 0"
  let ?r = "save_dependents f ?i user b3"
  obtain C P where CP: "calls (snd ?r) = calls b3 @ C @ P"
    "\<forall>c \<in> set C. \<not> writes_action_plans (fst c)"
    and D: "(P = [] \<and> action_plans (snd ?r) = action_plans b3 \<and>
       (actionPlans f \<noteq> [] \<longrightarrow> (\<exists>m. fst ?r = Inl m))) \<or>
      (\<exists>rep. P = [(InsertActionPlans (action_plan_rows ?i user (actionPlans f)), rep)] \<and>
         actionPlans f \<noteq> [] \<and>
         (case rep of
            Fails m \<Rightarrow>
              fst ?r = Inl ''Failed to save action plans'' \<and>
              action_plans (snd ?r) = action_plans b3
          | _ \<Rightarrow>
              fst ?r = Inr ?i \<and>
              (\<exists>rows. action_plans (snd ?r) = action_plans b3 @ rows \<and>
                 map ap_action rows = map plan_action (actionPlans f) \<and>
                 map ap_observation_id rows = replicate (length (actionPlans f)) ?i)))"
    using save_dependents_action_plans[of f ?i user b3] by (elim exE conjE)
  let ?C = "front @ [(InsertObservation p, Succeeds)] @ C"
  have 1: "calls (snd (submit_try f now b)) = calls b @ ?C @ P"
    using CP(1) saved(1) by (simp only: saved(5) append_assoc)
  have "\<forall>c \<in> set front. \<not> writes_action_plans (fst c)"
    using saved(2) no_reference_no_action_plans by blast
  then have 2: "\<forall>c \<in> set ?C. \<not> writes_action_plans (fst c)"
    using CP(2) by auto
  have 3: "(P = [] \<and> action_plans (snd (submit_try f now b)) = action_plans b \<and>
       (actionPlans f \<noteq> [] \<longrightarrow> (\<exists>m. fst (submit_try f now b) = Inl m))) \<or>
      (\<exists>savedId user rep.
         P = [(InsertActionPlans (action_plan_rows savedId user (actionPlans f)), rep)] \<and>
         actionPlans f \<noteq> [] \<and>
         (case rep of
            Fails m \<Rightarrow>
              fst (submit_try f now b) = Inl ''Failed to save action plans'' \<and>
              action_plans (snd (submit_try f now b)) = action_plans b
          | _ \<Rightarrow>
              fst (submit_try f now b) = Inr savedId \<and>
              (\<exists>rows. action_plans (snd (submit_try f now b)) = action_plans b @ rows \<and>
                 map ap_action rows = map plan_action (actionPlans f) \<and>
                 map ap_observation_id rows = replicate (length (actionPlans f)) savedId)))"
    using D unfolding saved(5) saved(4) by blast
  from 1 2 3 have "?Q ?C P" by (intro conjI)
  then show ?thesis by blast
qed

lemma example_action_plans_written:
  "map ap_action (action_plans (snd (snd (handleSubmit example_form 0 example_backend)))) =
     [''Fix cable'', ''Brief crew'']"
  by (simp add: create_flow_defs example_form_def example_backend_def
        observation_payload_def category_rows_def action_plan_rows_def
        new_action_plan_row_def example_plan_def enumerate_eq_zip upt_rec)

text \<open>
  Claim C2, as the code has it. The staged action plans are not written one by one: when at
  least one plan is staged and the submission gets that far, \<open>handleSubmit\<close> issues exactly
  one insert request, after every other call, that carries all the staged plans with the id
  of the saved report. If that request is answered with an error, none of the staged plans is
  written and the submission fails with \<open>Failed to save action plans\<close>; otherwise all of
  them are written, in order, and the submission navigates to the saved report. In every
  other case the table of action plans is left as it was.
\<close>

theorem handleSubmit_action_plans_one_request:
  assumes "handleSubmit f now b = (outcome, f', b')"
  shows "\<exists>C P. calls b' = calls b @ C @ P \<and>
     (\<forall>c \<in> set C. \<not> writes_action_plans (fst c)) \<and>
     ((P = [] \<and> action_plans b' = action_plans b \<and>
       (actionPlans f \<noteq> [] \<longrightarrow> (\<exists>m. outcome = Rejected m \<or> outcome = SubmitFailed m))) \<or>
      (\<exists>savedId user rep.
         P = [(InsertActionPlans (action_plan_rows savedId user (actionPlans f)), rep)] \<and>
         actionPlans f \<noteq> [] \<and>
         (case rep of
            Fails m \<Rightarrow>
              outcome = SubmitFailed ''Failed to save action plans'' \<and>
              action_plans b' = action_plans b
          | _ \<Rightarrow>
              outcome = Navigated (''/reports/'' @ savedId) \<and>
              (\<exists>rows. action_plans b' = action_plans b @ rows \<and>
                 map ap_action rows = map plan_action (actionPlans f) \<and>
                 map ap_observation_id rows = replicate (length (actionPlans f)) savedId))))"
  (is "\<exists>C P. ?Q C P")
proof (cases "fst (validateForm f)")
  case False
  then have "outcome = Rejected ''Please fill in all required fields''" "b' = b"
    using assms by (simp_all add: handleSubmit_def)
  then have "?Q [] []" by simp
  then show ?thesis by blast
next
  case True
  let ?g = "snd (validateForm f)"
  have o: "outcome = (case fst (submit_try ?g now b) of
              Inl m \<Rightarrow> SubmitFailed m | Inr i \<Rightarrow> Navigated (''/reports/'' @ i))"
    and b': "b' = snd (submit_try ?g now b)"
    using assms True handleSubmit_outcome[of f now b] by simp_all
  obtain C P where 1: "calls (snd (submit_try ?g now b)) = calls b @ C @ P"
    and 2: "\<forall>c \<in> set C. \<not> writes_action_plans (fst c)"
    and D: "(P = [] \<and> action_plans (snd (submit_try ?g now b)) = action_plans b \<and>
       (actionPlans ?g \<noteq> [] \<longrightarrow> (\<exists>m. fst (submit_try ?g now b) = Inl m))) \<or>
      (\<exists>savedId user rep.
         P = [(InsertActionPlans (action_plan_rows savedId user (actionPlans ?g)), rep)] \<and>
         actionPlans ?g \<noteq> [] \<and>
         (case rep of
            Fails m \<Rightarrow>
              fst (submit_try ?g now b) = Inl ''Failed to save action plans'' \<and>
              action_plans (snd (submit_try ?g now b)) = action_plans b
          | _ \<Rightarrow>
              fst (submit_try ?g now b) = Inr savedId \<and>
              (\<exists>rows. action_plans (snd (submit_try ?g now b)) = action_plans b @ rows \<and>
                 map ap_action rows = map plan_action (actionPlans ?g) \<and>
                 map ap_observation_id rows = replicate (length (actionPlans ?g)) savedId)))"
    using submit_try_action_plans[of ?g now b] by (elim exE conjE)
  note D' = D[unfolded validateForm_keeps_draft]
  from D' show ?thesis
  proof (elim disjE exE conjE)
    assume A: "P = []" "action_plans (snd (submit_try ?g now b)) = action_plans b"
      "actionPlans f \<noteq> [] \<longrightarrow> (\<exists>m. fst (submit_try ?g now b) = Inl m)"
    have "actionPlans f \<noteq> [] \<longrightarrow> (\<exists>m. outcome = Rejected m \<or> outcome = SubmitFailed m)"
      using A(3) o by auto
    with A(1,2) 1 2 have "?Q C P" unfolding b' by simp
    then show ?thesis by blast
  next
    fix savedId user rep
    assume P: "P = [(InsertActionPlans (action_plan_rows savedId user (actionPlans f)), rep)]"
      and ne: "actionPlans f \<noteq> []"
      and R: "case rep of
            Fails m \<Rightarrow>
              fst (submit_try ?g now b) = Inl ''Failed to save action plans'' \<and>
              action_plans (snd (submit_try ?g now b)) = action_plans b
          | _ \<Rightarrow>
              fst (submit_try ?g now b) = Inr savedId \<and>
              (\<exists>rows. action_plans (snd (submit_try ?g now b)) = action_plans b @ rows \<and>
                 map ap_action rows = map plan_action (actionPlans f) \<and>
                 map ap_observation_id rows = replicate (length (actionPlans f)) savedId)"
    have "case rep of
            Fails m \<Rightarrow>
              outcome = SubmitFailed ''Failed to save action plans'' \<and>
              action_plans b' = action_plans b
          | _ \<Rightarrow>
              outcome = Navigated (''/reports/'' @ savedId) \<and>
              (\<exists>rows. action_plans b' = action_plans b @ rows \<and>
                 map ap_action rows = map plan_action (actionPlans f) \<and>
                 map ap_observation_id rows = replicate (length (actionPlans f)) savedId)"
      using R o unfolding b' by (cases rep) simp_all
    with P ne 1 2 have "?Q C P" unfolding b' by blast
    then show ?thesis by blast
  qed
qed

theorem handleSubmit_action_plans_one_request_witness:
  "\<exists>outcome f' b'.
     handleSubmit example_form 0 example_backend = (outcome, f', b') \<and>
     map ap_action (action_plans b') = [''Fix cable'', ''Brief crew''] \<and>
     (\<exists>C P. calls b' = calls example_backend @ C @ P \<and>
        (\<forall>c \<in> set C. \<not> writes_action_plans (fst c)) \<and>
        ((P = [] \<and> action_plans b' = action_plans example_backend \<and>
          (actionPlans example_form \<noteq> [] \<longrightarrow>
             (\<exists>m. outcome = Rejected m \<or> outcome = SubmitFailed m))) \<or>
         (\<exists>savedId user rep.
            P = [(InsertActionPlans
                    (action_plan_rows savedId user (actionPlans example_form)), rep)] \<and>
            actionPlans example_form \<noteq> [] \<and>
            (case rep of
               Fails m \<Rightarrow>
                 outcome = SubmitFailed ''Failed to save action plans'' \<and>
                 action_plans b' = action_plans example_backend
             | _ \<Rightarrow>
                 outcome = Navigated (''/reports/'' @ savedId) \<and>
                 (\<exists>rows. action_plans b' = action_plans example_backend @ rows \<and>
                    map ap_action rows = map plan_action (actionPlans example_form) \<and>
                    map ap_observation_id rows =
                      replicate (length (actionPlans example_form)) savedId)))))"
proof -
  obtain outcome f' b' where
    H: "handleSubmit example_form 0 example_backend = (outcome, f', b')"
    by (cases "handleSubmit example_form 0 example_backend") auto
  have W: "map ap_action (action_plans b') = [''Fix cable'', ''Brief crew'']"
    using example_action_plans_written H by simp
  note C = handleSubmit_action_plans_one_request[OF H]
  show ?thesis
    by (rule exI[of _ outcome], rule exI[of _ f'], rule exI[of _ b'], intro conjI)
       (rule H, rule W, rule C)
qed

text \<open>
  The claim as stated (each staged action plan is an independent write, so that one may fail
  while another succeeds) fails for the example draft with its two staged plans on a store
  whose fourth call fails: the trace holds a single request for both plans, and neither plan
  is written.
\<close>

theorem handleSubmit_action_plans_not_independent:
  "length (actionPlans example_form) = 2 \<and>
   filter (\<lambda>c. writes_action_plans (fst c))
     (calls (snd (snd (handleSubmit example_form 0 (example_backend_failing_at 3))))) =
     [(InsertActionPlans
         (action_plan_rows ''obs-1'' ''u1''
            [example_plan ''Fix cable'', example_plan ''Brief crew'']),
       Fails ''unavailable'')] \<and>
   action_plans (snd (snd (handleSubmit example_form 0 (example_backend_failing_at 3)))) = [] \<and>
   fst (handleSubmit example_form 0 (example_backend_failing_at 3)) =
     SubmitFailed ''Failed to save action plans''"
  by (simp add: create_flow_defs example_form_def example_backend_def
        example_backend_failing_at_def observation_payload_def category_rows_def)

lemma errors_nonempty:
  assumes "project f = [] \<or> company f = [] \<or> submitterName f = [] \<or> date f = [] \<or>
     time f = [] \<or> location f = [] \<or> description f = [] \<or> reportGroup f = [] \<or>
     consequences f = [] \<or> likelihood f = [] \<or> subject f = [] \<or>
     selectedCategories f = [] \<or> (actionPlanRequired f = ''yes'' \<and> actionPlans f = [])"
  shows "errors f \<noteq> []"
  using assms unfolding errors_def by auto

lemma errors_categories:
  "selectedCategories f = [] \<Longrightarrow>
     (''categories'', ''At least one safety category is required'') \<in> set (errors f)"
  unfolding errors_def by simp

text \<open>
  Claim C3. Whenever one of project, company, submitter name, date, time, location,
  description, report group, consequences, likelihood or subject is empty, or no category is
  selected, or an action plan is required and none is staged, \<open>validateForm\<close> records a
  non-empty set of errors and returns false, and \<open>handleSubmit\<close> ends with the error toast
  without a single call to the store; an empty selection of categories is reported under the
  key \<open>categories\<close>.
\<close>

theorem validateForm_blocks_incomplete_draft:
  assumes "project f = [] \<or> company f = [] \<or> submitterName f = [] \<or> date f = [] \<or>
     time f = [] \<or> location f = [] \<or> description f = [] \<or> reportGroup f = [] \<or>
     consequences f = [] \<or> likelihood f = [] \<or> subject f = [] \<or>
     selectedCategories f = [] \<or> (actionPlanRequired f = ''yes'' \<and> actionPlans f = [])"
  shows "\<not> fst (validateForm f) \<and>
         validationErrors (snd (validateForm f)) \<noteq> [] \<and>
         (selectedCategories f = [] \<longrightarrow>
            (''categories'', ''At least one safety category is required'')
              \<in> set (validationErrors (snd (validateForm f)))) \<and>
         fst (handleSubmit f now b) = Rejected ''Please fill in all required fields'' \<and>
         snd (snd (handleSubmit f now b)) = b"
  using errors_nonempty[OF assms] errors_categories[of f]
  by (simp add: validateForm_def handleSubmit_def)

theorem validateForm_blocks_incomplete_draft_witness:
  "selectedCategories (example_form\<lparr>selectedCategories := []\<rparr>) = [] \<and>
   project (example_form\<lparr>selectedCategories := []\<rparr>) \<noteq> [] \<and>
   \<not> fst (validateForm (example_form\<lparr>selectedCategories := []\<rparr>)) \<and>
   validationErrors (snd (validateForm (example_form\<lparr>selectedCategories := []\<rparr>))) =
     [(''categories'', ''At least one safety category is required'')] \<and>
   fst (handleSubmit (example_form\<lparr>selectedCategories := []\<rparr>) 0 example_backend) =
     Rejected ''Please fill in all required fields'' \<and>
   snd (snd (handleSubmit (example_form\<lparr>selectedCategories := []\<rparr>) 0 example_backend)) =
     example_backend"
  using validateForm_blocks_incomplete_draft
          [of "example_form\<lparr>selectedCategories := []\<rparr>" 0 example_backend]
  by (simp add: validateForm_def errors_def example_form_def)

section \<open>The edit form: the steps of \<open>handleSubmit\<close>\<close>

lemma frame_update_observation:
  "observation_categories (snd (update_observation i u b)) = observation_categories b"
  "action_plans (snd (update_observation i u b)) = action_plans b"
  by (simp_all add: update_observation_def logged_def split: reply.splits)

lemma frame_close_action_plans:
  "observation_categories (snd (close_action_plans i b)) = observation_categories b"
  by (simp add: close_action_plans_def logged_def split: reply.splits)

lemma close_action_plans_result:
  "close_action_plans i b = (res, b') \<Longrightarrow>
     (case res of
        Some e \<Rightarrow> action_plans b' = action_plans b
      | None \<Rightarrow>
          action_plans b' =
            map (\<lambda>p. if ap_observation_id p = i then p\<lparr>ap_status := ''closed''\<rparr> else p)
              (action_plans b))"
  by (auto simp: close_action_plans_def logged_def split: reply.splits)

lemma frame_delete_categories:
  "action_plans (snd (delete_categories i b)) = action_plans b"
  by (simp add: delete_categories_def logged_def split: reply.splits)

lemma delete_categories_result:
  "delete_categories i b = (None, b') \<Longrightarrow>
     observation_categories b' = filter (\<lambda>l. link_observation_id l \<noteq> i) (observation_categories b)"
  by (auto simp: delete_categories_def logged_def split: reply.splits)

lemma insert_categories_result:
  "insert_categories rows b = (None, b') \<Longrightarrow>
     observation_categories b' = observation_categories b @ rows"
  by (auto simp: insert_categories_def logged_def split: reply.splits)

lemma frame_update_categories:
  "action_plans (snd (update_categories i s b)) = action_plans b"
proof (cases "delete_categories i b")
  case (Pair e b1)
  have a1: "action_plans b1 = action_plans b"
    using frame_delete_categories[of i b] Pair by simp
  obtain e' b2 where P2: "insert_categories (category_rows i (selectedCategories s)) b1 = (e', b2)"
    by (cases "insert_categories (category_rows i (selectedCategories s)) b1")
  have a2: "action_plans b2 = action_plans b"
    using frame_insert_categories(2)[of "category_rows i (selectedCategories s)" b1] P2 a1
    by simp
  show ?thesis
    using Pair P2 a1 a2
    by (cases e; cases e') (simp_all add: update_categories_def)
qed

lemma update_categories_nothing:
  "selectedCategories s = [] \<Longrightarrow> update_categories i s b = (Completed, b)"
  by (simp add: update_categories_def)

lemma update_categories_completed:
  assumes "update_categories i s b = (Completed, b')" and "selectedCategories s \<noteq> []"
  shows "observation_categories b' =
           filter (\<lambda>l. link_observation_id l \<noteq> i) (observation_categories b) @
           category_rows i (selectedCategories s)"
proof (cases "delete_categories i b")
  case (Pair e b1)
  obtain e' b2 where P2: "insert_categories (category_rows i (selectedCategories s)) b1 = (e', b2)"
    by (cases "insert_categories (category_rows i (selectedCategories s)) b1")
  have *: "e = None \<and> e' = None \<and> b' = b2"
    using assms Pair P2 by (cases e; cases e') (simp_all add: update_categories_def)
  have "observation_categories b1 =
          filter (\<lambda>l. link_observation_id l \<noteq> i) (observation_categories b)"
    using delete_categories_result[of i b b1] Pair * by simp
  moreover have "observation_categories b2 =
          observation_categories b1 @ category_rows i (selectedCategories s)"
    using insert_categories_result[of "category_rows i (selectedCategories s)" b1 b2] P2 *
    by simp
  ultimately show ?thesis using * by simp
qed

lemma category_ids_after_replacement:
  "map link_category_id
     (filter (\<lambda>l. link_observation_id l = i)
        (filter (\<lambda>l. link_observation_id l \<noteq> i) links @ category_rows i cs)) = cs"
  by (induction cs) (simp_all add: category_rows_def comp_def)

text \<open>
  How the \<open>try\<close> block of the edit form gets to the category links: not at all, or past the
  row update without a cascade, or past the cascade.
\<close>

lemma update_try_cases:
  obtains (stopped)
      "fst (update_try san i s now b) \<noteq> Completed"
      "fst (snd (update_try san i s now b)) = s"
      "action_plans (snd (snd (update_try san i s now b))) = action_plans b"
      "observation_categories (snd (snd (update_try san i s now b))) = observation_categories b"
    | (updated) b3 where
      "status s \<noteq> ''closed''"
      "action_plans b3 = action_plans b"
      "observation_categories b3 = observation_categories b"
      "update_try san i s now b =
         (fst (update_categories i s b3), s, snd (update_categories i s b3))"
    | (closed) b4 where
      "status s = ''closed''"
      "action_plans b4 =
         map (\<lambda>p. if ap_observation_id p = i then p\<lparr>ap_status := ''closed''\<rparr> else p)
           (action_plans b)"
      "observation_categories b4 = observation_categories b"
      "update_try san i s now b =
         (fst (update_categories i s b4),
          s\<lparr>actionPlans := map (\<lambda>plan. plan\<lparr>vp_status := ''closed''\<rparr>) (actionPlans s)\<rparr>,
          snd (update_categories i s b4))"
proof -
  obtain uo b1 where P1: "auth_get_user b = (uo, b1)" by (cases "auth_get_user b")
  have f1: "action_plans b1 = action_plans b" "observation_categories b1 = observation_categories b"
    using frame_auth_get_user[of b] P1 by simp_all
  show ?thesis
  proof (cases uo)
    case None
    then have "update_try san i s now b = (Thrown ''User not authenticated'', s, b1)"
      by (simp add: update_try_def P1)
    then show ?thesis using f1 by (intro stopped) simp_all
  next
    case (Some user)
    show ?thesis
    proof (cases "check_fields s")
      case Some2: (Some msg)
      then have "update_try san i s now b = (Returned msg, s, b1)"
        by (simp add: update_try_def P1 Some)
      then show ?thesis using f1 by (intro stopped) simp_all
    next
      case None
      let ?up = "case imageFile s of
                   None \<Rightarrow> (Inr (case report_image s of None \<Rightarrow> [] | Some p \<Rightarrow> p), b1)
                 | Some name \<Rightarrow>
                     storage_upload ''safety-images'' (decimal now @ ''-'' @ san name) b1"
      obtain ur b2 where P2: "?up = (ur, b2)" by (cases ?up)
      have f2: "action_plans b2 = action_plans b \<and>
        observation_categories b2 = observation_categories b"
      proof (cases "imageFile s")
        case None
        then show ?thesis using P2 f1 by simp
      next
        case (Some name)
        let ?key = "decimal now @ ''-'' @ san name"
        have "b2 = snd (storage_upload ''safety-images'' ?key b1)" using P2 Some by simp
        then show ?thesis
          using f1 frame_storage_upload(3,4)[of "''safety-images''" ?key b1] by simp
      qed
      show ?thesis
      proof (cases ur)
        case (Inl e)
        then have "update_try san i s now b = (Thrown e, s, b2)"
          using P2 by (simp add: update_try_def P1 Some None)
        then show ?thesis using f2 by (intro stopped) simp_all
      next
        case (Inr imagePath)
        obtain e3 b3 where P3: "update_observation i (update_payload s imagePath) b2 = (e3, b3)"
          by (cases "update_observation i (update_payload s imagePath) b2")
        have f3: "action_plans b3 = action_plans b"
          "observation_categories b3 = observation_categories b"
          using frame_update_observation[of i "update_payload s imagePath" b2] P3 f2 by simp_all
        show ?thesis
        proof (cases e3)
          case Some3: (Some e)
          then have "update_try san i s now b = (Thrown e, s, b3)"
            using P2 by (simp add: update_try_def P1 Some None Inr P3)
          then show ?thesis using f3 by (intro stopped) simp_all
        next
          case None3: None
          show ?thesis
          proof (cases "status s = ''closed''")
            case False
            then have "update_try san i s now b =
                (fst (update_categories i s b3), s, snd (update_categories i s b3))"
              using P2 by (simp add: update_try_def P1 Some None Inr P3 None3)
            then show ?thesis using False f3 by (intro updated[of b3]) simp_all
          next
            case True
            obtain e4 b4 where P4: "close_action_plans i b3 = (e4, b4)"
              by (cases "close_action_plans i b3")
            have c4: "observation_categories b4 = observation_categories b"
              using frame_close_action_plans[of i b3] P4 f3 by simp
            note R4 = close_action_plans_result[OF P4]
            show ?thesis
            proof (cases e4)
              case Some4: (Some e)
              then have "update_try san i s now b = (Thrown e, s, b4)"
                using P2 True by (simp add: update_try_def P1 Some None Inr P3 None3 P4)
              then show ?thesis using R4 Some4 f3 c4 by (intro stopped) simp_all
            next
              case None4: None
              then have "update_try san i s now b =
                 (fst (update_categories i s b4),
                  s\<lparr>actionPlans := map (\<lambda>plan. plan\<lparr>vp_status := ''closed''\<rparr>) (actionPlans s)\<rparr>,
                  snd (update_categories i s b4))"
                using P2 True by (simp add: update_try_def P1 Some None Inr P3 None3 P4)
              then show ?thesis using R4 None4 f3 c4 True by (intro closed[of b4]) simp_all
            qed
          qed
        qed
      qed
    qed
  qed
qed

lemma handleSubmitEdit_unfold:
  assumes "id_param s = Some i" and "i \<noteq> []"
  shows "handleSubmitEdit san s now b =
     (case fst (update_try san i s now b) of
        Returned msg \<Rightarrow> Invalid msg
      | Thrown e \<Rightarrow> UpdateFailed ''Failed to update report''
      | Completed \<Rightarrow> Updated ''/'',
      (fst (snd (update_try san i s now b)))\<lparr>saving := False\<rparr>,
      snd (snd (update_try san i s now b)))"
  using assms by (simp add: handleSubmitEdit_def split: prod.splits flow.splits)

lemma handleSubmitEdit_no_report:
  assumes "id_param s = None \<or> id_param s = Some []"
  shows "handleSubmitEdit san s now b = (NoReportId, s, b)"
  using assms by (auto simp: handleSubmitEdit_def)

lemma closed_plans_of:
  "filter (\<lambda>p. ap_observation_id p = i)
     (map (\<lambda>p. if ap_observation_id p = i then p\<lparr>ap_status := ''closed''\<rparr> else p) xs) =
   map (\<lambda>p. p\<lparr>ap_status := ''closed''\<rparr>) (filter (\<lambda>p. ap_observation_id p = i) xs)"
  by (induction xs) simp_all

lemma update_try_closing:
  assumes "status s = ''closed''" and "fst (update_try san i s now b) = Completed"
  shows "action_plans_of i (snd (snd (update_try san i s now b))) =
           map (\<lambda>p. p\<lparr>ap_status := ''closed''\<rparr>) (action_plans_of i b) \<and>
         actionPlans (fst (snd (update_try san i s now b))) =
           map (\<lambda>plan. plan\<lparr>vp_status := ''closed''\<rparr>) (actionPlans s)"
proof (cases rule: update_try_cases[of san i s now b])
  case stopped
  then show ?thesis using assms(2) by simp
next
  case (updated b3)
  then show ?thesis using assms(1) by simp
next
  case (closed b4)
  have "action_plans (snd (snd (update_try san i s now b))) = action_plans b4"
    by (simp add: closed(4) frame_update_categories)
  then show ?thesis
    by (simp add: closed(2,4) action_plans_of_def closed_plans_of)
qed

lemma update_try_not_closing:
  assumes "status s \<noteq> ''closed''"
  shows "action_plans (snd (snd (update_try san i s now b))) = action_plans b \<and>
         actionPlans (fst (snd (update_try san i s now b))) = actionPlans s"
proof (cases rule: update_try_cases[of san i s now b])
  case stopped
  then show ?thesis by simp
next
  case (updated b3)
  then show ?thesis by (simp add: frame_update_categories)
next
  case (closed b4)
  then show ?thesis using assms by simp
qed

lemma update_try_replaces_categories:
  assumes "selectedCategories s \<noteq> []" and "fst (update_try san i s now b) = Completed"
  shows "observation_categories (snd (snd (update_try san i s now b))) =
           filter (\<lambda>l. link_observation_id l \<noteq> i) (observation_categories b) @
           category_rows i (selectedCategories s)"
proof (cases rule: update_try_cases[of san i s now b])
  case stopped
  then show ?thesis using assms(2) by simp
next
  case (updated b3)
  have "update_categories i s b3 = (Completed, snd (snd (update_try san i s now b)))"
    using assms(2) by (simp add: updated(4) prod_eq_iff)
  from update_categories_completed[OF this assms(1)] show ?thesis by (simp add: updated(3))
next
  case (closed b4)
  have "update_categories i s b4 = (Completed, snd (snd (update_try san i s now b)))"
    using assms(2) by (simp add: closed(4) prod_eq_iff)
  from update_categories_completed[OF this assms(1)] show ?thesis by (simp add: closed(3))
qed

lemma update_try_keeps_categories:
  assumes "selectedCategories s = []"
  shows "observation_categories (snd (snd (update_try san i s now b))) = observation_categories b"
proof (cases rule: update_try_cases[of san i s now b])
  case stopped
  then show ?thesis by simp
next
  case (updated b3)
  then show ?thesis by (simp add: update_categories_nothing[OF assms])
next
  case (closed b4)
  then show ?thesis by (simp add: update_categories_nothing[OF assms])
qed

lemmas edit_flow_defs =
  handleSubmitEdit_def update_try_def update_categories_def check_fields_def
  auth_get_user_def storage_upload_def update_observation_def close_action_plans_def
  delete_categories_def insert_categories_def logged_def next_reply_def update_payload_def

lemmas example_edit_defs =
  example_view_def example_store_def example_backend_def example_action_plan_row_def
  example_observation_row_def example_view_plan_def

lemma example_update:
  "fst (handleSubmitEdit (\<lambda>name. name) example_view 0 example_store) = Updated ''/''"
  by (simp add: edit_flow_defs example_edit_defs)

lemma example_update_plans:
  "map ap_status (action_plans example_closed_store) = [''closed'', ''open'', ''closed'']"
  by (simp add: example_closed_store_def edit_flow_defs example_edit_defs)

lemma example_update_links:
  "category_ids_of ''obs-1'' example_closed_store = [''c2'']"
  by (simp add: example_closed_store_def edit_flow_defs example_edit_defs category_ids_of_def
        category_rows_def)

lemma example_reopen:
  "fst (handleSubmitEdit (\<lambda>name. name) (example_view\<lparr>status := ''open''\<rparr>) 0
          example_closed_store) = Updated ''/''"
  by (simp add: example_closed_store_def edit_flow_defs example_edit_defs)

lemma example_reopen_status:
  "map obs_status (observation_details (snd (snd
     (handleSubmitEdit (\<lambda>name. name) (example_view\<lparr>status := ''open''\<rparr>) 0
          example_closed_store)))) = [''open'']"
  by (simp add: example_closed_store_def edit_flow_defs example_edit_defs apply_update_def)

section \<open>Claims about the edit form\<close>

text \<open>
  Claim C4, as the code has it. When the edit form's update operation succeeds with the
  status set to closed, every action plan of the store that is linked to the report is as
  before except that its status is closed (and so are the plans in the component state).
  With any other status, for instance when the report is reopened, the update leaves the
  table of action plans, and the plans in the component state, exactly as they were,
  whatever its outcome.
\<close>

theorem handleSubmitEdit_closing_cascades:
  assumes "handleSubmitEdit san s now b = (outcome, s', b')"
  shows "(status s = ''closed'' \<and> id_param s = Some i \<and> outcome = Updated ''/'' \<longrightarrow>
            action_plans_of i b' = map (\<lambda>p. p\<lparr>ap_status := ''closed''\<rparr>) (action_plans_of i b) \<and>
            (\<forall>p \<in> set (action_plans_of i b'). ap_status p = ''closed'') \<and>
            actionPlans s' = map (\<lambda>plan. plan\<lparr>vp_status := ''closed''\<rparr>) (actionPlans s)) \<and>
         (status s \<noteq> ''closed'' \<longrightarrow>
            action_plans b' = action_plans b \<and> actionPlans s' = actionPlans s)"
proof (intro conjI impI; (elim conjE)?)
  assume st: "status s = ''closed''" and id: "id_param s = Some i" and out: "outcome = Updated ''/''"
  have ne: "i \<noteq> []"
    using assms id out handleSubmitEdit_no_report[of s san now b] by auto
  note U = handleSubmitEdit_unfold[OF id ne, of san now b]
  have "fst (update_try san i s now b) = Completed"
    using assms out U by (cases "fst (update_try san i s now b)") simp_all
  from update_try_closing[OF st this] assms U
  have *: "action_plans_of i b' = map (\<lambda>p. p\<lparr>ap_status := ''closed''\<rparr>) (action_plans_of i b)"
    "actionPlans s' = map (\<lambda>plan. plan\<lparr>vp_status := ''closed''\<rparr>) (actionPlans s)"
    by auto
  then show "action_plans_of i b' = map (\<lambda>p. p\<lparr>ap_status := ''closed''\<rparr>) (action_plans_of i b)"
    "actionPlans s' = map (\<lambda>plan. plan\<lparr>vp_status := ''closed''\<rparr>) (actionPlans s)"
    by simp_all
  show "\<forall>p \<in> set (action_plans_of i b'). ap_status p = ''closed''"
    unfolding *(1) by simp
next
  assume st: "status s \<noteq> ''closed''"
  show "action_plans b' = action_plans b" "actionPlans s' = actionPlans s"
  proof -
    consider "id_param s = None \<or> id_param s = Some []"
      | i where "id_param s = Some i" "i \<noteq> []"
      by (cases "id_param s") auto
    then have "action_plans b' = action_plans b \<and> actionPlans s' = actionPlans s"
    proof cases
      case 1
      then show ?thesis using assms handleSubmitEdit_no_report[of s san now b] by auto
    next
      case 2
      from update_try_not_closing[OF st, of san i now b] assms
        handleSubmitEdit_unfold[OF 2, of san now b]
      show ?thesis by auto
    qed
    then show "action_plans b' = action_plans b" "actionPlans s' = actionPlans s" by simp_all
  qed
qed

theorem handleSubmitEdit_closing_cascades_witness:
  "status example_view = ''closed'' \<and> id_param example_view = Some ''obs-1'' \<and>
   fst (handleSubmitEdit (\<lambda>name. name) example_view 0 example_store) = Updated ''/'' \<and>
   map ap_status (action_plans example_store) = [''open'', ''open'', ''open''] \<and>
   map ap_status (action_plans example_closed_store) = [''closed'', ''open'', ''closed''] \<and>
   action_plans_of ''obs-1'' example_closed_store =
     map (\<lambda>p. p\<lparr>ap_status := ''closed''\<rparr>) (action_plans_of ''obs-1'' example_store) \<and>
   map ap_status (action_plans_of ''obs-1'' example_closed_store) = [''closed'', ''closed''] \<and>
   status (example_view\<lparr>status := ''open''\<rparr>) \<noteq> ''closed'' \<and>
   fst (handleSubmitEdit (\<lambda>name. name) (example_view\<lparr>status := ''open''\<rparr>) 0
          example_closed_store) = Updated ''/'' \<and>
   action_plans (snd (snd (handleSubmitEdit (\<lambda>name. name) (example_view\<lparr>status := ''open''\<rparr>) 0
          example_closed_store))) = action_plans example_closed_store"
proof -
  let ?r1 = "handleSubmitEdit (\<lambda>name. name) example_view 0 example_store"
  let ?r2 = "handleSubmitEdit (\<lambda>name. name) (example_view\<lparr>status := ''open''\<rparr>) 0
          example_closed_store"
  have H1: "?r1 = (Updated ''/'', fst (snd ?r1), example_closed_store)"
    using example_update by (simp add: example_closed_store_def prod_eq_iff)
  have P: "status example_view = ''closed''" "id_param example_view = Some ''obs-1''"
    by (simp_all add: example_view_def)
  note A = handleSubmitEdit_closing_cascades[OF H1, THEN conjunct1, rule_format,
      OF conjI[OF P(1) conjI[OF P(2) refl]]]
  have H2: "?r2 = (fst ?r2, fst (snd ?r2), snd (snd ?r2))" by simp
  have Q: "status (example_view\<lparr>status := ''open''\<rparr>) \<noteq> ''closed''" by simp
  note B = handleSubmitEdit_closing_cascades[OF H2, THEN conjunct2, rule_format, OF Q]
  have S: "map ap_status (action_plans example_store) = [''open'', ''open'', ''open'']"
    by (simp add: example_edit_defs)
  have L: "map ap_status (action_plans_of ''obs-1'' example_closed_store) =
      [''closed'', ''closed'']"
    unfolding A[THEN conjunct1] by (simp add: action_plans_of_def example_edit_defs)
  show ?thesis
    using P example_update S example_update_plans A[THEN conjunct1] L Q example_reopen
      B[THEN conjunct1]
    by - (intro conjI; assumption)
qed

text \<open>
  The claim as stated, without the condition that the update succeeds, fails for the example
  edit on the example store when the third call, the cascade, is answered with an error: the
  row update before it has already taken the report from open to closed, the update ends
  with \<open>Failed to update report\<close>, and both action plans of the report are still open.
\<close>

theorem handleSubmitEdit_closed_report_open_plans:
  "status example_view = ''closed'' \<and>
   map obs_status (observation_details example_store) = [''open''] \<and>
   fst (handleSubmitEdit (\<lambda>name. name) example_view 0 (example_store_failing_at 2)) =
     UpdateFailed ''Failed to update report'' \<and>
   map fst (calls (snd (snd
     (handleSubmitEdit (\<lambda>name. name) example_view 0 (example_store_failing_at 2))))) =
     [AuthGetUser, UpdateObservation ''obs-1'' (update_payload example_view []),
      CloseActionPlans ''obs-1''] \<and>
   map obs_status (observation_details (snd (snd
     (handleSubmitEdit (\<lambda>name. name) example_view 0 (example_store_failing_at 2))))) =
     [''closed''] \<and>
   map ap_status (action_plans_of ''obs-1'' (snd (snd
     (handleSubmitEdit (\<lambda>name. name) example_view 0 (example_store_failing_at 2))))) =
     [''open'', ''open'']"
  by (simp add: edit_flow_defs example_edit_defs example_store_failing_at_def
        apply_update_def action_plans_of_def)

text \<open>
  Claim C8, as the code has it. When at least one category is selected and the edit form's
  update operation succeeds, the links of the report are replaced wholesale: the table is
  the old one without the links of the report, followed by one link per selected category,
  so the categories linked to the report are the selected ones. When no category is
  selected, the links are left as they were, whatever the outcome of the update.
\<close>

theorem handleSubmitEdit_replaces_selected_categories:
  assumes "handleSubmitEdit san s now b = (outcome, s', b')"
  shows "(selectedCategories s \<noteq> [] \<and> id_param s = Some i \<and> outcome = Updated ''/'' \<longrightarrow>
            observation_categories b' =
              filter (\<lambda>l. link_observation_id l \<noteq> i) (observation_categories b) @
              category_rows i (selectedCategories s) \<and>
            category_ids_of i b' = selectedCategories s) \<and>
         (selectedCategories s = [] \<longrightarrow> observation_categories b' = observation_categories b)"
proof (intro conjI impI; (elim conjE)?)
  assume sel: "selectedCategories s \<noteq> []" and id: "id_param s = Some i"
    and out: "outcome = Updated ''/''"
  have ne: "i \<noteq> []"
    using assms id out handleSubmitEdit_no_report[of s san now b] by auto
  note U = handleSubmitEdit_unfold[OF id ne, of san now b]
  have "fst (update_try san i s now b) = Completed"
    using assms out U by (cases "fst (update_try san i s now b)") simp_all
  from update_try_replaces_categories[OF sel this] assms U
  show *: "observation_categories b' =
              filter (\<lambda>l. link_observation_id l \<noteq> i) (observation_categories b) @
              category_rows i (selectedCategories s)"
    by auto
  show "category_ids_of i b' = selectedCategories s"
    unfolding category_ids_of_def * by (rule category_ids_after_replacement)
next
  assume sel: "selectedCategories s = []"
  consider "id_param s = None \<or> id_param s = Some []"
    | i where "id_param s = Some i" "i \<noteq> []"
    by (cases "id_param s") auto
  then show "observation_categories b' = observation_categories b"
  proof cases
    case 1
    then show ?thesis using assms handleSubmitEdit_no_report[of s san now b] by auto
  next
    case 2
    from update_try_keeps_categories[OF sel, of san i now b] assms
      handleSubmitEdit_unfold[OF 2, of san now b]
    show ?thesis by auto
  qed
qed

theorem handleSubmitEdit_replaces_selected_categories_witness:
  "selectedCategories example_view \<noteq> [] \<and> id_param example_view = Some ''obs-1'' \<and>
   fst (handleSubmitEdit (\<lambda>name. name) example_view 0 example_store) = Updated ''/'' \<and>
   category_ids_of ''obs-1'' example_store = [''c1''] \<and>
   observation_categories example_closed_store =
     filter (\<lambda>l. link_observation_id l \<noteq> ''obs-1'') (observation_categories example_store) @
     category_rows ''obs-1'' (selectedCategories example_view) \<and>
   category_ids_of ''obs-1'' example_closed_store = selectedCategories example_view \<and>
   selectedCategories example_view = [''c2''] \<and>
   selectedCategories (example_view\<lparr>selectedCategories := []\<rparr>) = [] \<and>
   observation_categories
     (snd (snd (handleSubmitEdit (\<lambda>name. name) (example_view\<lparr>selectedCategories := []\<rparr>) 0
                  example_store))) = observation_categories example_store"
proof -
  let ?r1 = "handleSubmitEdit (\<lambda>name. name) example_view 0 example_store"
  let ?r2 = "handleSubmitEdit (\<lambda>name. name) (example_view\<lparr>selectedCategories := []\<rparr>) 0
          example_store"
  have H1: "?r1 = (Updated ''/'', fst (snd ?r1), example_closed_store)"
    using example_update by (simp add: example_closed_store_def prod_eq_iff)
  have P: "selectedCategories example_view \<noteq> []" "id_param example_view = Some ''obs-1''"
    "selectedCategories example_view = [''c2'']"
    by (simp_all add: example_view_def)
  note A = handleSubmitEdit_replaces_selected_categories[OF H1, THEN conjunct1, rule_format,
      OF conjI[OF P(1) conjI[OF P(2) refl]]]
  have H2: "?r2 = (fst ?r2, fst (snd ?r2), snd (snd ?r2))" by simp
  have Q: "selectedCategories (example_view\<lparr>selectedCategories := []\<rparr>) = []" by simp
  note B = handleSubmitEdit_replaces_selected_categories[OF H2, THEN conjunct2, rule_format, OF Q]
  have S: "category_ids_of ''obs-1'' example_store = [''c1'']"
    by (simp add: example_edit_defs category_ids_of_def)
  show ?thesis
    using P example_update S A[THEN conjunct1] A[THEN conjunct2] Q B
    by - (intro conjI; assumption)
qed

text \<open>
  The claim as stated for every selected set fails for the empty one: with nothing selected,
  a successful update leaves the report of the example linked to \<open>c1\<close>.
\<close>

theorem handleSubmitEdit_keeps_links_when_none_selected:
  "selectedCategories (example_view\<lparr>selectedCategories := []\<rparr>) = [] \<and>
   category_ids_of ''obs-1'' example_store = [''c1''] \<and>
   fst (handleSubmitEdit (\<lambda>name. name) (example_view\<lparr>selectedCategories := []\<rparr>) 0
          example_store) = Updated ''/'' \<and>
   category_ids_of ''obs-1''
     (snd (snd (handleSubmitEdit (\<lambda>name. name) (example_view\<lparr>selectedCategories := []\<rparr>) 0
                  example_store))) = [''c1'']"
  by (simp add: edit_flow_defs example_edit_defs category_ids_of_def)

text \<open>
  Claim C10. \<open>handleAddActionPlan\<close> refuses to append and reports the error
  \<open>Maximum of 10 action plans allowed per report\<close> whenever the list already holds 10 (or
  more) action plans; below that it appends one empty plan. So it never takes a list of at
  most 10 plans beyond 10.
\<close>

theorem handleAddActionPlan_limit:
  "(length (actionPlans s) \<ge> 10 \<longrightarrow>
      handleAddActionPlan s now =
        (LimitReached ''Maximum of 10 action plans allowed per report'', s)) \<and>
   (length (actionPlans s) < 10 \<longrightarrow>
      fst (handleAddActionPlan s now) = Added \<and>
      length (actionPlans (snd (handleAddActionPlan s now))) = length (actionPlans s) + 1) \<and>
   (length (actionPlans s) \<le> 10 \<longrightarrow>
      length (actionPlans (snd (handleAddActionPlan s now))) \<le> 10)"
  by (simp add: handleAddActionPlan_def)

theorem handleAddActionPlan_limit_witness:
  "length (actionPlans (example_view\<lparr>actionPlans := replicate 10 (example_view_plan ''a1'')\<rparr>))
     \<ge> 10 \<and>
   handleAddActionPlan
     (example_view\<lparr>actionPlans := replicate 10 (example_view_plan ''a1'')\<rparr>) 0 =
     (LimitReached ''Maximum of 10 action plans allowed per report'',
      example_view\<lparr>actionPlans := replicate 10 (example_view_plan ''a1'')\<rparr>) \<and>
   length (actionPlans example_view) < 10 \<and>
   fst (handleAddActionPlan example_view 0) = Added \<and>
   length (actionPlans (snd (handleAddActionPlan example_view 0))) = 3"
  using handleAddActionPlan_limit
          [of "example_view\<lparr>actionPlans := replicate 10 (example_view_plan ''a1'')\<rparr>" 0]
        handleAddActionPlan_limit [of example_view 0]
  by (simp add: example_view_def)

section \<open>The reports table: loading and deleting\<close>

lemma select_reports_frame:
  "calls (snd (select_reports q b)) = calls b @ [(SelectReports q, next_reply b)]"
  "observation_details (snd (select_reports q b)) = observation_details b"
  "action_plans (snd (select_reports q b)) = action_plans b"
  by (simp_all add: select_reports_def logged_def split: reply.splits)

lemma loadReports_frame:
  "calls (snd (loadReports s b)) = calls b @ [(SelectReports (reports_query s), next_reply b)]"
  "observation_details (snd (loadReports s b)) = observation_details b"
  "action_plans (snd (loadReports s b)) = action_plans b"
  using select_reports_frame[of "reports_query s" b]
  by (auto simp: loadReports_def split: prod.splits sum.splits)

lemma length_result_set:
  "length (result_set q b) = length (filter (matches q) (observation_details b))"
  by (simp add: result_set_def ordered_def)

lemma loadReports_succeeds:
  assumes "next_reply b = Succeeds"
  shows "reports (fst (loadReports s b)) =
           map transformed (map (joined b)
             (row_range (q_range (reports_query s)) (result_set (reports_query s) b)))"
    and "totalPages (fst (loadReports s b)) = 0"
  using assms by (simp_all add: loadReports_def select_reports_def reports_query_def page_count_def)

lemma loadReports_window:
  assumes "1 \<le> currentPage s"
  shows "row_range (q_range (reports_query s)) rows =
           take 10 (drop (nat ((currentPage s - 1) * 10)) rows)"
  using assms by (simp add: reports_query_def row_range_def reportsPerPage_def)

lemma loadReports_requests_window:
  "q_range (reports_query s) = Some ((currentPage s - 1) * 10, currentPage s * 10 - 1)"
  by (simp add: reports_query_def reportsPerPage_def algebra_simps)

lemma loadReports_asks_no_count:
  "q_count (reports_query s) = None"
  by (simp add: reports_query_def)

lemma page_count_ceiling:
  "page_count (Some c) = (int c + 9) div 10"
  by (simp add: page_count_def reportsPerPage_def)

lemma delete_action_plans_result:
  "delete_action_plans i b = (res, b') \<Longrightarrow>
     calls b' = calls b @ [(DeleteActionPlans i, next_reply b)] \<and>
     observation_details b' = observation_details b \<and>
     (case res of
        Some e \<Rightarrow> next_reply b = Fails e \<and> action_plans b' = action_plans b
      | None \<Rightarrow> (\<forall>m. next_reply b \<noteq> Fails m) \<and>
          action_plans b' = filter (\<lambda>p. ap_observation_id p \<noteq> i) (action_plans b))"
  by (auto simp: delete_action_plans_def logged_def split: reply.splits)

lemma delete_observation_result:
  "delete_observation i b = (res, b') \<Longrightarrow>
     calls b' = calls b @ [(DeleteObservation i, next_reply b)] \<and>
     action_plans b' = action_plans b \<and>
     (case res of
        Some e \<Rightarrow> next_reply b = Fails e \<and> observation_details b' = observation_details b
      | None \<Rightarrow> (\<forall>m. next_reply b \<noteq> Fails m) \<and>
          observation_details b' = filter (\<lambda>r. obs_id r \<noteq> i) (observation_details b))"
  by (auto simp: delete_observation_def logged_def split: reply.splits)

text \<open>The three ways \<open>confirmDelete\<close> can go for a report to delete.\<close>

lemma confirmDelete_cases:
  assumes "reportToDelete s = Some report"
  obtains (plans_failed) b1 e where
      "confirmDelete s b = (DeleteFailed ''Failed to delete report'', s, b1)"
      "calls b1 = calls b @ [(DeleteActionPlans (sr_id report), Fails e)]"
    | (report_failed) b2 rep e where
      "confirmDelete s b = (DeleteFailed ''Failed to delete report'', s, b2)"
      "calls b2 = calls b @ [(DeleteActionPlans (sr_id report), rep),
                             (DeleteObservation (sr_id report), Fails e)]"
      "\<forall>m. rep \<noteq> Fails m"
    | (deleted) b2 rep rep' where
      "confirmDelete s b =
         (Deleted ''Report deleted successfully'',
          loadReports (s\<lparr>reportToDelete := None\<rparr>) b2)"
      "calls b2 = calls b @ [(DeleteActionPlans (sr_id report), rep),
                             (DeleteObservation (sr_id report), rep')]"
      "\<forall>m. rep \<noteq> Fails m" "\<forall>m. rep' \<noteq> Fails m"
      "action_plans b2 = filter (\<lambda>p. ap_observation_id p \<noteq> sr_id report) (action_plans b)"
      "observation_details b2 = filter (\<lambda>r. obs_id r \<noteq> sr_id report) (observation_details b)"
proof -
  let ?i = "sr_id report"
  obtain e1 b1 where P1: "delete_action_plans ?i b = (e1, b1)"
    by (cases "delete_action_plans ?i b")
  note R1 = delete_action_plans_result[OF P1]
  show ?thesis
  proof (cases e1)
    case (Some e)
    then have "confirmDelete s b = (DeleteFailed ''Failed to delete report'', s, b1)"
      by (simp add: confirmDelete_def assms P1)
    then show ?thesis using R1 Some by (intro plans_failed[of b1 e]) simp_all
  next
    case None
    obtain e2 b2 where P2: "delete_observation ?i b1 = (e2, b2)"
      by (cases "delete_observation ?i b1")
    note R2 = delete_observation_result[OF P2]
    show ?thesis
    proof (cases e2)
      case (Some e)
      then have "confirmDelete s b = (DeleteFailed ''Failed to delete report'', s, b2)"
        by (simp add: confirmDelete_def assms P1 None P2)
      then show ?thesis using R1 R2 None Some
        by (intro report_failed[of b2 "next_reply b" e]) simp_all
    next
      case None2: None
      then have "confirmDelete s b =
         (Deleted ''Report deleted successfully'',
          loadReports (s\<lparr>reportToDelete := None\<rparr>) b2)"
        by (simp add: confirmDelete_def assms P1 None P2)
      then show ?thesis using R1 R2 None None2
        by (intro deleted[of b2 "next_reply b" "next_reply b1"]) simp_all
    qed
  qed
qed

lemmas table_defs =
  confirmDelete_def loadReports_def select_reports_def reports_query_def page_count_def
  delete_action_plans_def delete_observation_def logged_def next_reply_def truthy_def
  result_set_def ordered_def row_range_def reportsPerPage_def action_plans_of_def

lemma example_delete:
  "fst (confirmDelete (example_table\<lparr>reportToDelete := Some example_report\<rparr>) example_store) =
     Deleted ''Report deleted successfully''"
  "map ap_id (action_plans (snd (snd
     (confirmDelete (example_table\<lparr>reportToDelete := Some example_report\<rparr>) example_store)))) =
     [''a2'']"
  by (simp_all add: table_defs example_table_def example_report_def example_store_def
        example_backend_def example_action_plan_row_def example_observation_row_def)

lemma example_result_set:
  "length (result_set (reports_query example_table) example_reports_store) = 11"
  by (simp add: length_result_set matches_def reports_query_def truthy_def
        example_table_def example_reports_store_def example_backend_def)

section \<open>The reports table: the export\<close>

lemma export_row_values:
  "export_row fmt report = Some row \<Longrightarrow>
     map_of row ''Severity'' = Some (sr_consequences report) \<and>
     map_of row ''Status'' = Some (sr_status report)"
  by (auto simp: export_row_def split: option.splits)

lemma export_rows_values:
  "export_rows fmt rs = Some rows \<Longrightarrow>
     length rows = length rs \<and>
     (\<forall>n < length rows.
        map_of (rows ! n) ''Severity'' = Some (sr_consequences (rs ! n)) \<and>
        map_of (rows ! n) ''Status'' = Some (sr_status (rs ! n)))"
proof (induction rs arbitrary: rows)
  case Nil
  then show ?case by simp
next
  case (Cons r rs)
  from Cons.prems obtain row rest where
    r: "export_row fmt r = Some row" and rest: "export_rows fmt rs = Some rest"
    and rows: "rows = row # rest"
    by (auto split: option.splits)
  from Cons.IH[OF rest] export_row_values[OF r] rows show ?case
    by (auto simp: nth_Cons split: nat.splits)
qed

lemma export_rows_total:
  "(\<forall>r \<in> set rs. fmt (sr_date r) \<noteq> None \<and> fmt (sr_created_at r) \<noteq> None) \<Longrightarrow>
     export_rows fmt rs \<noteq> None"
  by (induction rs) (auto simp: export_row_def split: option.splits)

section \<open>Claims about the reports table\<close>

text \<open>
  Claim C5. For a report to delete, \<open>confirmDelete\<close> issues the delete of the report row
  only directly after a delete of the action plans with that report's id that did not fail,
  and never for another id. When it ends with \<open>Report deleted successfully\<close>, the store
  holds no action plan with that \<open>observation_id\<close> and no report row with that id.
\<close>

theorem confirmDelete_plans_before_report:
  assumes "confirmDelete s b = (outcome, s', b')" and "reportToDelete s = Some report"
  shows "(\<forall>pre i rep post.
            calls b' = calls b @ pre @ (DeleteObservation i, rep) # post \<longrightarrow>
            i = sr_id report \<and>
            (\<exists>rep'. pre = [(DeleteActionPlans (sr_id report), rep')] \<and> (\<forall>m. rep' \<noteq> Fails m))) \<and>
         (outcome = Deleted ''Report deleted successfully'' \<longrightarrow>
            action_plans_of (sr_id report) b' = [] \<and>
            sr_id report \<notin> obs_id ` set (observation_details b') \<and>
            (\<exists>rep rep' rest.
               calls b' = calls b @ (DeleteActionPlans (sr_id report), rep) #
                            (DeleteObservation (sr_id report), rep') # rest))"
  using assms(2)
proof (cases rule: confirmDelete_cases[where b = b, consumes 1,
    case_names plans_failed report_failed deleted])
  case (plans_failed b1 e)
  have b': "b' = b1" and o: "outcome = DeleteFailed ''Failed to delete report''"
    using assms(1) plans_failed(1) by simp_all
  have "False" if "calls b' = calls b @ pre @ (DeleteObservation i, rep) # post" for pre i rep post
    using that plans_failed(2) unfolding b' by (auto simp: Cons_eq_append_conv append_eq_Cons_conv)
  then show ?thesis using o by blast
next
  case (report_failed b2 rep0 e)
  have b': "b' = b2" and o: "outcome = DeleteFailed ''Failed to delete report''"
    using assms(1) report_failed(1) by simp_all
  have "i = sr_id report \<and> pre = [(DeleteActionPlans (sr_id report), rep0)]"
    if "calls b' = calls b @ pre @ (DeleteObservation i, rep) # post" for pre i rep post
    using that report_failed(2) unfolding b' by (auto simp: Cons_eq_append_conv append_eq_Cons_conv)
  then show ?thesis using o report_failed(3) by blast
next
  case (deleted b2 rep0 rep1)
  let ?s = "s\<lparr>reportToDelete := None\<rparr>"
  have b': "b' = snd (loadReports ?s b2)" and o: "outcome = Deleted ''Report deleted successfully''"
    using assms(1) deleted(1) by (simp_all add: prod_eq_iff)
  have c: "calls b' = calls b @ [(DeleteActionPlans (sr_id report), rep0),
             (DeleteObservation (sr_id report), rep1),
             (SelectReports (reports_query ?s), next_reply b2)]"
    unfolding b' by (simp add: loadReports_frame deleted(2))
  have 1: "i = sr_id report \<and> pre = [(DeleteActionPlans (sr_id report), rep0)]"
    if "calls b' = calls b @ pre @ (DeleteObservation i, rep) # post" for pre i rep post
    using that c by (auto simp: Cons_eq_append_conv append_eq_Cons_conv)
  have 2: "action_plans_of (sr_id report) b' = []"
    unfolding b' by (simp add: action_plans_of_def loadReports_frame deleted(5))
  have 3: "sr_id report \<notin> obs_id ` set (observation_details b')"
    unfolding b' by (auto simp: loadReports_frame deleted(6))
  have 4: "\<exists>rep rep' rest.
               calls b' = calls b @ (DeleteActionPlans (sr_id report), rep) #
                            (DeleteObservation (sr_id report), rep') # rest"
    using c by simp
  show ?thesis using 1 2 3 4 deleted(3) by blast
qed

theorem confirmDelete_plans_before_report_witness:
  "reportToDelete (example_table\<lparr>reportToDelete := Some example_report\<rparr>) = Some example_report \<and>
   map ap_id (action_plans_of ''obs-1'' example_store) = [''a1'', ''a3''] \<and>
   (\<exists>outcome s' b'.
      confirmDelete (example_table\<lparr>reportToDelete := Some example_report\<rparr>) example_store =
        (outcome, s', b') \<and>
      outcome = Deleted ''Report deleted successfully'' \<and>
      map ap_id (action_plans b') = [''a2''] \<and>
      action_plans_of (sr_id example_report) b' = [] \<and>
      sr_id example_report \<notin> obs_id ` set (observation_details b') \<and>
      (\<exists>rep rep' rest.
         calls b' = calls example_store @ (DeleteActionPlans (sr_id example_report), rep) #
                      (DeleteObservation (sr_id example_report), rep') # rest))"
proof -
  let ?s = "example_table\<lparr>reportToDelete := Some example_report\<rparr>"
  obtain outcome s' b' where H: "confirmDelete ?s example_store = (outcome, s', b')"
    by (cases "confirmDelete ?s example_store") auto
  have R: "reportToDelete ?s = Some example_report" by simp
  have O: "outcome = Deleted ''Report deleted successfully''"
    and A: "map ap_id (action_plans b') = [''a2'']"
    using example_delete H by simp_all
  have S: "map ap_id (action_plans_of ''obs-1'' example_store) = [''a1'', ''a3'']"
    by (simp add: action_plans_of_def example_store_def example_backend_def
          example_action_plan_row_def)
  note C = confirmDelete_plans_before_report[OF H R, THEN conjunct2, rule_format, OF O]
  have "\<exists>outcome s' b'.
      confirmDelete ?s example_store = (outcome, s', b') \<and>
      outcome = Deleted ''Report deleted successfully'' \<and>
      map ap_id (action_plans b') = [''a2''] \<and>
      action_plans_of (sr_id example_report) b' = [] \<and>
      sr_id example_report \<notin> obs_id ` set (observation_details b') \<and>
      (\<exists>rep rep' rest.
         calls b' = calls example_store @ (DeleteActionPlans (sr_id example_report), rep) #
                      (DeleteObservation (sr_id example_report), rep') # rest)"
    by (rule exI[of _ outcome], rule exI[of _ s'], rule exI[of _ b'], intro conjI)
       (rule H, rule O, rule A, rule C[THEN conjunct1], rule C[THEN conjunct2, THEN conjunct1],
        rule C[THEN conjunct2, THEN conjunct2])
  with R S show ?thesis by - (intro conjI; assumption)
qed

text \<open>
  Claim C6 at a store with eleven matching reports and the table on its first page: the
  query asks for the inclusive range 0 to 9, ten rows are loaded, but, the query carrying no
  count option, the answer has no count and the table reports 0 pages, where the count 11
  would give 2.
\<close>

theorem loadReports_reports_no_pages:
  "length (result_set (reports_query example_table) example_reports_store) = 11 \<and>
   q_range (reports_query example_table) = Some (0, 9) \<and>
   length (reports (fst (loadReports example_table example_reports_store))) = 10 \<and>
   q_count (reports_query example_table) = None \<and>
   totalPages (fst (loadReports example_table example_reports_store)) = 0 \<and>
   page_count (Some 11) = 2"
proof -
  have n: "next_reply example_reports_store = Succeeds"
    by (simp add: next_reply_def example_reports_store_def example_backend_def)
  have k: "1 \<le> currentPage example_table" by (simp add: example_table_def)
  have p: "currentPage example_table = 1" by (simp add: example_table_def)
  have "reports (fst (loadReports example_table example_reports_store)) =
      map transformed (map (joined example_reports_store)
        (take 10 (drop (nat ((currentPage example_table - 1) * 10))
           (result_set (reports_query example_table) example_reports_store))))"
    by (simp only: loadReports_succeeds(1)[OF n] loadReports_window[OF k])
  then have "length (reports (fst (loadReports example_table example_reports_store))) = 10"
    using example_result_set by (simp add: p)
  moreover have "q_range (reports_query example_table) = Some (0, 9)"
    by (simp add: loadReports_requests_window p)
  ultimately show ?thesis
    using example_result_set loadReports_succeeds(2)[OF n, of example_table]
    by (simp add: loadReports_asks_no_count page_count_ceiling)
qed

text \<open>
  Claim C9. When \<open>exportToCSV\<close> produces rows, there is one per row held in \<open>reports\<close>,
  in order, whose \<open>Severity\<close> is that row's \<open>consequences\<close> and whose \<open>Status\<close> is its
  \<open>status\<close>; it produces rows whenever every date of the held rows can be formatted. The
  rows held after a successful load are those of the requested window of the result set, at
  most ten, so the export covers the current page only.
\<close>

theorem exportToCSV_current_page:
  "(exportToCSV fmt s = Some rows \<longrightarrow>
      length rows = length (reports s) \<and>
      (\<forall>n < length rows.
         map_of (rows ! n) ''Severity'' = Some (sr_consequences (reports s ! n)) \<and>
         map_of (rows ! n) ''Status'' = Some (sr_status (reports s ! n)))) \<and>
   ((\<forall>r \<in> set (reports s). fmt (sr_date r) \<noteq> None \<and> fmt (sr_created_at r) \<noteq> None) \<longrightarrow>
      exportToCSV fmt s \<noteq> None) \<and>
   (next_reply b = Succeeds \<and> 1 \<le> currentPage s0 \<and> s = fst (loadReports s0 b) \<longrightarrow>
      reports s =
        map transformed (map (joined b)
          (take 10 (drop (nat ((currentPage s0 - 1) * 10)) (result_set (reports_query s0) b)))) \<and>
      length (reports s) \<le> 10)"
proof (intro conjI impI; (elim conjE)?)
  assume "exportToCSV fmt s = Some rows"
  then have "export_rows fmt (reports s) = Some rows" by (simp add: exportToCSV_def)
  from export_rows_values[OF this]
  show "length rows = length (reports s)"
    "\<forall>n < length rows.
         map_of (rows ! n) ''Severity'' = Some (sr_consequences (reports s ! n)) \<and>
         map_of (rows ! n) ''Status'' = Some (sr_status (reports s ! n))"
    by simp_all
next
  assume "\<forall>r \<in> set (reports s). fmt (sr_date r) \<noteq> None \<and> fmt (sr_created_at r) \<noteq> None"
  then show "exportToCSV fmt s \<noteq> None"
    unfolding exportToCSV_def by (rule export_rows_total)
next
  assume n: "next_reply b = Succeeds" and k: "1 \<le> currentPage s0"
    and s: "s = fst (loadReports s0 b)"
  show *: "reports s =
        map transformed (map (joined b)
          (take 10 (drop (nat ((currentPage s0 - 1) * 10)) (result_set (reports_query s0) b))))"
    unfolding s by (simp add: loadReports_succeeds(1)[OF n] loadReports_window[OF k])
  show "length (reports s) \<le> 10" unfolding * by simp
qed

theorem exportToCSV_current_page_witness:
  "next_reply example_reports_store = Succeeds \<and> 1 \<le> currentPage example_table \<and>
   length (result_set (reports_query example_table) example_reports_store) = 11 \<and>
   length (reports (fst (loadReports example_table example_reports_store))) = 10 \<and>
   (\<exists>rows. exportToCSV Some (fst (loadReports example_table example_reports_store)) = Some rows \<and>
      length rows = 10 \<and>
      (\<forall>n < length rows.
         map_of (rows ! n) ''Severity'' =
           Some (sr_consequences (reports (fst (loadReports example_table example_reports_store)) ! n)) \<and>
         map_of (rows ! n) ''Status'' =
           Some (sr_status (reports (fst (loadReports example_table example_reports_store)) ! n))))"
proof -
  let ?s = "fst (loadReports example_table example_reports_store)"
  have n: "next_reply example_reports_store = Succeeds"
    by (simp add: next_reply_def example_reports_store_def example_backend_def)
  have k: "1 \<le> currentPage example_table" by (simp add: example_table_def)
  note W = exportToCSV_current_page[where s = ?s and ?s0.0 = example_table
      and b = example_reports_store and fmt = Some]
  note W3 = W[THEN conjunct2, THEN conjunct2, rule_format, OF conjI[OF n conjI[OF k refl]]]
  have p: "currentPage example_table = 1" by (simp add: example_table_def)
  have len: "length (reports ?s) = 10"
    using example_result_set by (simp add: W3[THEN conjunct1] p)
  have tot: "\<forall>r \<in> set (reports ?s). Some (sr_date r) \<noteq> None \<and> Some (sr_created_at r) \<noteq> None"
    by simp
  from W[THEN conjunct2, THEN conjunct1, THEN mp, OF tot]
  obtain rows where rows: "exportToCSV Some ?s = Some rows" by auto
  note W1 = W[where rows = rows, THEN conjunct1, rule_format, OF rows]
  have "\<exists>rows. exportToCSV Some ?s = Some rows \<and> length rows = 10 \<and>
      (\<forall>n < length rows.
         map_of (rows ! n) ''Severity'' = Some (sr_consequences (reports ?s ! n)) \<and>
         map_of (rows ! n) ''Status'' = Some (sr_status (reports ?s ! n)))"
    using rows W1 len by (intro exI[of _ rows]) simp
  with n k example_result_set len show ?thesis by - (intro conjI; assumption)
qed

section \<open>The image cache\<close>

lemma CACHE_TTL_minutes: "CACHE_TTL = 300000"
  by (simp add: CACHE_TTL_def)

lemma loadImage_fresh_entry:
  assumes "imageCache src = Some entry" and "now_at_check env - timestamp entry < CACHE_TTL"
  shows "loadImage env src isActionPlan imageCache =
           \<lparr>returned = Some (url entry), fetched = [], cache_after = imageCache\<rparr>"
  using assms by (simp add: loadImage_def)

lemma loadImage_stale_entry:
  assumes "imageCache src = Some entry" and "\<not> now_at_check env - timestamp entry < CACHE_TTL"
  shows "loadImage env src isActionPlan imageCache = load_fresh env src isActionPlan imageCache"
  using assms by (simp add: loadImage_def)

lemma load_fresh_fetches:
  assumes "\<not> startsWith src ''data:image''"
  shows "fetched (load_fresh env src isActionPlan imageCache) =
           [image_address env src isActionPlan]"
    and "returned (load_fresh env src isActionPlan imageCache) =
           fetch_data_url env (image_address env src isActionPlan)"
  using assms by (simp_all add: load_fresh_def split: option.splits)

lemma loadImage_fetched_and_stored:
  assumes "loadImage env src isActionPlan imageCache =
             \<lparr>returned = Some v, fetched = [a], cache_after = cache'\<rparr>"
  shows "\<not> startsWith src ''data:image'' \<and>
         a = image_address env src isActionPlan \<and>
         fetch_data_url env a = Some v \<and>
         cache' = imageCache(src \<mapsto> \<lparr>url = v, timestamp = now_at_store env\<rparr>)"
proof -
  have "load_fresh env src isActionPlan imageCache =
             \<lparr>returned = Some v, fetched = [a], cache_after = cache'\<rparr>"
    using assms by (auto simp: loadImage_def split: option.splits if_splits)
  then show ?thesis
    by (auto simp: load_fresh_def split: if_splits option.splits)
qed

lemmas image_defs =
  loadImage_def load_fresh_def image_address_def startsWith_def CACHE_TTL_def
  example_image_env_def

lemma example_first_load:
  "loadImage (example_image_env 1000) ''a.png'' False Map.empty =
     \<lparr>returned = Some ''data:image/png;base64,https://x.example/storage/v1/object/public/safety-images/a.png'',
      fetched = [''https://x.example/storage/v1/object/public/safety-images/a.png''],
      cache_after =
        Map.empty(''a.png'' \<mapsto>
          \<lparr>url = ''data:image/png;base64,https://x.example/storage/v1/object/public/safety-images/a.png'',
           timestamp = 1040\<rparr>)\<rparr>"
  by (simp add: image_defs)

section \<open>Claims about the image cache\<close>

text \<open>
  Claim C7. After a call of \<open>loadImage\<close> that fetched and converted the image of a source
  address, the cache holds the converted value under that address with the time of storing.
  A later call for the same address whose check happens less than 5 minutes (300000 ms)
  after that time returns the stored value, fetches nothing and leaves the cache as it is; a
  call whose check happens 5 minutes or more after it fetches the address again.
\<close>

theorem loadImage_cache_window:
  assumes "loadImage env1 src ap1 cache0 =
             \<lparr>returned = Some v, fetched = [a], cache_after = cache1\<rparr>"
  shows "cache1 src = Some \<lparr>url = v, timestamp = now_at_store env1\<rparr> \<and>
         (now_at_check env2 - now_at_store env1 < 5 * 60 * 1000 \<longrightarrow>
            loadImage env2 src ap2 cache1 =
              \<lparr>returned = Some v, fetched = [], cache_after = cache1\<rparr>) \<and>
         (now_at_check env2 - now_at_store env1 \<ge> 5 * 60 * 1000 \<longrightarrow>
            fetched (loadImage env2 src ap2 cache1) = [image_address env2 src ap2] \<and>
            returned (loadImage env2 src ap2 cache1) =
              fetch_data_url env2 (image_address env2 src ap2))"
proof -
  from loadImage_fetched_and_stored[OF assms]
  have nd: "\<not> startsWith src ''data:image''"
    and c1: "cache1 src = Some \<lparr>url = v, timestamp = now_at_store env1\<rparr>"
    by simp_all
  have hit: "loadImage env2 src ap2 cache1 =
              \<lparr>returned = Some v, fetched = [], cache_after = cache1\<rparr>"
    if "now_at_check env2 - now_at_store env1 < 5 * 60 * 1000"
    using loadImage_fresh_entry[where imageCache = cache1 and src = src and env = env2
        and isActionPlan = ap2, OF c1] that
    by (simp add: CACHE_TTL_def)
  have miss: "fetched (loadImage env2 src ap2 cache1) = [image_address env2 src ap2] \<and>
            returned (loadImage env2 src ap2 cache1) =
              fetch_data_url env2 (image_address env2 src ap2)"
    if "now_at_check env2 - now_at_store env1 \<ge> 5 * 60 * 1000"
    using loadImage_stale_entry[where imageCache = cache1 and src = src and env = env2
        and isActionPlan = ap2, OF c1] that
      load_fresh_fetches[OF nd, of env2 ap2 cache1]
    by (simp add: CACHE_TTL_def)
  from c1 hit miss show ?thesis by blast
qed

theorem loadImage_cache_window_witness:
  "loadImage (example_image_env 1000) ''a.png'' False Map.empty =
     \<lparr>returned = Some ''data:image/png;base64,https://x.example/storage/v1/object/public/safety-images/a.png'',
      fetched = [''https://x.example/storage/v1/object/public/safety-images/a.png''],
      cache_after =
        Map.empty(''a.png'' \<mapsto>
          \<lparr>url = ''data:image/png;base64,https://x.example/storage/v1/object/public/safety-images/a.png'',
           timestamp = 1040\<rparr>)\<rparr> \<and>
   now_at_check (example_image_env 301039) - now_at_store (example_image_env 1000)
     < 5 * 60 * 1000 \<and>
   fetched (loadImage (example_image_env 301039) ''a.png'' False
     (Map.empty(''a.png'' \<mapsto>
          \<lparr>url = ''data:image/png;base64,https://x.example/storage/v1/object/public/safety-images/a.png'',
           timestamp = 1040\<rparr>))) = [] \<and>
   returned (loadImage (example_image_env 301039) ''a.png'' False
     (Map.empty(''a.png'' \<mapsto>
          \<lparr>url = ''data:image/png;base64,https://x.example/storage/v1/object/public/safety-images/a.png'',
           timestamp = 1040\<rparr>))) =
     Some ''data:image/png;base64,https://x.example/storage/v1/object/public/safety-images/a.png'' \<and>
   now_at_check (example_image_env 301040) - now_at_store (example_image_env 1000)
     \<ge> 5 * 60 * 1000 \<and>
   fetched (loadImage (example_image_env 301040) ''a.png'' False
     (Map.empty(''a.png'' \<mapsto>
          \<lparr>url = ''data:image/png;base64,https://x.example/storage/v1/object/public/safety-images/a.png'',
           timestamp = 1040\<rparr>))) =
     [''https://x.example/storage/v1/object/public/safety-images/a.png'']"
proof -
  note W = loadImage_cache_window[OF example_first_load]
  have h: "now_at_check (example_image_env 301039) - now_at_store (example_image_env 1000)
     < 5 * 60 * 1000"
    by (simp add: example_image_env_def)
  have m: "now_at_check (example_image_env 301040) - now_at_store (example_image_env 1000)
     \<ge> 5 * 60 * 1000"
    by (simp add: example_image_env_def)
  note H = W[of "example_image_env 301039" False, THEN conjunct2, THEN conjunct1, THEN mp, OF h]
  note M = W[of "example_image_env 301040" False, THEN conjunct2, THEN conjunct2, THEN mp, OF m]
  have a: "image_address (example_image_env 301040) ''a.png'' False =
     ''https://x.example/storage/v1/object/public/safety-images/a.png''"
    by (simp add: image_defs)
  show ?thesis
    using example_first_load h m H M a by simp
qed

end
